theory Spec2Isabelle
  imports Complex_Main
begin

section \<open>JavaScript values used by the player\<close>

text \<open>
  A JavaScript number is a binary64 value: a real that the format represents, or one of the
  three special values. The sign of zero is not modelled.
\<close>

datatype number = NaN | PosInf | NegInf | Num real

text \<open>The values \<^verbatim>\<open>Math.floor\<close> can return: an integer or a special value.\<close>

datatype integral = Whole_NaN | Whole_PosInf | Whole_NegInf | Whole int

definition isNaN :: "number \<Rightarrow> bool" where
  "isNaN x = (case x of NaN \<Rightarrow> True | _ \<Rightarrow> False)"

definition trunc :: "real \<Rightarrow> int" where
  "trunc x = (if 0 \<le> x then \<lfloor>x\<rfloor> else \<lceil>x\<rceil>)"

subsection \<open>Rounding to binary64\<close>

text \<open>\<open>ilog2 n\<close> is the position of the leading bit of \<open>n\<close>, and \<open>pow2 e\<close> is two to
  the power \<open>e\<close>.\<close>

fun ilog2 :: "nat \<Rightarrow> nat" where
  "ilog2 n = (if n < 2 then 0 else Suc (ilog2 (n div 2)))"

declare ilog2.simps [simp del]

definition pow2 :: "int \<Rightarrow> real" where
  "pow2 e = (if 0 \<le> e then 2 ^ nat e else 1 / 2 ^ nat (- e))"

text \<open>
  The exponent of the binade of a nonzero real \<open>x\<close>: the \<open>e\<close> with
  \<open>pow2 e \<le> \<bar>x\<bar> < pow2 (e + 1)\<close>, but not below the least exponent of a normal number, so
  that the subnormal numbers share the spacing of the lowest binade.
\<close>

definition binade :: "real \<Rightarrow> int" where
  "binade x =
     (if 1 \<le> \<bar>x\<bar> then int (ilog2 (nat \<lfloor>\<bar>x\<bar>\<rfloor>))
      else max (- int (Suc (ilog2 (nat \<lceil>1 / \<bar>x\<bar>\<rceil> - 1)))) (- 1022))"

text \<open>The nearest integer, the even one of two equally near.\<close>

definition round_even :: "real \<Rightarrow> int" where
  "round_even y =
     (let f = \<lfloor>y\<rfloor>; d = y - of_int f
      in if d < 1 / 2 then f else if 1 / 2 < d then f + 1 else if even f then f else f + 1)"

text \<open>
  The result of an arithmetic operation whose exact value is \<open>x\<close>: the nearest multiple
  of the spacing of the binade of \<open>x\<close> (53 significant bits), and an infinity once that
  reaches \<^verbatim>\<open>2^1024\<close>.
\<close>

definition round64 :: "real \<Rightarrow> number" where
  "round64 x =
     (if x = 0 then Num 0
      else
        let u = pow2 (binade x - 52);
            y = of_int (round_even (x / u)) * u
        in if 2 ^ 1024 \<le> y then PosInf else if y \<le> - (2 ^ 1024) then NegInf else Num y)"

subsection \<open>Operators\<close>

text \<open>The operator \<^verbatim>\<open>/\<close>.\<close>

fun js_div :: "number \<Rightarrow> number \<Rightarrow> number" where
  "js_div NaN _ = NaN"
| "js_div _ NaN = NaN"
| "js_div (Num a) (Num b) =
     (if b \<noteq> 0 then round64 (a / b)
      else if a = 0 then NaN else if 0 < a then PosInf else NegInf)"
| "js_div (Num a) _ = Num 0"
| "js_div PosInf (Num b) = (if 0 \<le> b then PosInf else NegInf)"
| "js_div NegInf (Num b) = (if 0 \<le> b then NegInf else PosInf)"
| "js_div _ _ = NaN"

text \<open>The operator \<^verbatim>\<open>*\<close>.\<close>

fun js_mul :: "number \<Rightarrow> number \<Rightarrow> number" where
  "js_mul NaN _ = NaN"
| "js_mul _ NaN = NaN"
| "js_mul (Num a) (Num b) = round64 (a * b)"
| "js_mul (Num a) PosInf = (if a = 0 then NaN else if 0 < a then PosInf else NegInf)"
| "js_mul (Num a) NegInf = (if a = 0 then NaN else if 0 < a then NegInf else PosInf)"
| "js_mul PosInf (Num b) = (if b = 0 then NaN else if 0 < b then PosInf else NegInf)"
| "js_mul NegInf (Num b) = (if b = 0 then NaN else if 0 < b then NegInf else PosInf)"
| "js_mul PosInf PosInf = PosInf"
| "js_mul NegInf NegInf = PosInf"
| "js_mul _ _ = NegInf"

text \<open>
  The operator \<^verbatim>\<open>%\<close>: the remainder takes the sign of the dividend. The remainder of
  two binary64 values is one, so nothing is rounded.
\<close>

fun js_rem :: "number \<Rightarrow> number \<Rightarrow> number" where
  "js_rem (Num a) (Num b) = (if b = 0 then NaN else Num (a - b * of_int (trunc (a / b))))"
| "js_rem (Num a) PosInf = Num a"
| "js_rem (Num a) NegInf = Num a"
| "js_rem _ _ = NaN"

fun Math_floor :: "number \<Rightarrow> integral" where
  "Math_floor NaN = Whole_NaN"
| "Math_floor PosInf = Whole_PosInf"
| "Math_floor NegInf = Whole_NegInf"
| "Math_floor (Num r) = Whole \<lfloor>r\<rfloor>"

text \<open>The comparison \<^verbatim>\<open>h > 0\<close>.\<close>

fun js_gt0 :: "integral \<Rightarrow> bool" where
  "js_gt0 (Whole i) = (0 < i)"
| "js_gt0 Whole_PosInf = True"
| "js_gt0 _ = False"

definition digit_char :: "nat \<Rightarrow> char" where
  "digit_char n = ''0123456789'' ! n"

fun dec :: "nat \<Rightarrow> string" where
  "dec n = (if n < 10 then [digit_char n] else dec (n div 10) @ [digit_char (n mod 10)])"

declare dec.simps [simp del]

text \<open>
  \<^verbatim>\<open>toString\<close> of a whole number, and the conversion a template literal does. Below
  \<^verbatim>\<open>2^53\<close> in magnitude every whole number is a binary64 value and prints as its decimal
  digits. From there on the language prints the shortest digits that read back as the same
  value, in exponent notation from \<^verbatim>\<open>10^21\<close>: that printer is the parameter
  \<open>shortest\<close>.
\<close>

fun toString :: "(int \<Rightarrow> string) \<Rightarrow> integral \<Rightarrow> string" where
  "toString shortest Whole_NaN = ''NaN''"
| "toString shortest Whole_PosInf = ''Infinity''"
| "toString shortest Whole_NegInf = ''-Infinity''"
| "toString shortest (Whole i) =
     (if \<bar>i\<bar> < 2 ^ 53 then (if i < 0 then ''-'' @ dec (nat (- i)) else dec (nat i))
      else shortest i)"

text \<open>\<^verbatim>\<open>s.padStart(n, c)\<close> with a one-character filler.\<close>

definition padStart :: "nat \<Rightarrow> char \<Rightarrow> string \<Rightarrow> string" where
  "padStart n c s = replicate (n - length s) c @ s"

section \<open>The control overlay: \<^verbatim>\<open>formatTime\<close>\<close>

definition formatTime :: "(int \<Rightarrow> string) \<Rightarrow> number \<Rightarrow> string" where
  "formatTime shortest seconds =
     (if isNaN seconds then ''0:00''
      else
        let h = Math_floor (js_div seconds (Num 3600));
            m = Math_floor (js_div (js_rem seconds (Num 3600)) (Num 60));
            s = Math_floor (js_rem seconds (Num 60))
        in if js_gt0 h
           then toString shortest h @ '':'' @ padStart 2 (CHR ''0'') (toString shortest m)
                  @ '':'' @ padStart 2 (CHR ''0'') (toString shortest s)
           else toString shortest m @ '':'' @ padStart 2 (CHR ''0'') (toString shortest s))"

text \<open>
  The two clock formats as the specification words them: \<open>M:SS\<close> has the minutes in plain
  decimal and exactly two digits of seconds; \<open>H:MM:SS\<close> has the hours in plain decimal and
  exactly two digits each of minutes and seconds.
\<close>

definition two_digits :: "nat \<Rightarrow> string" where
  "two_digits n = [digit_char (n div 10), digit_char (n mod 10)]"

definition clock_M_SS :: "nat \<Rightarrow> nat \<Rightarrow> string" where
  "clock_M_SS m s = dec m @ '':'' @ two_digits s"

definition clock_H_MM_SS :: "nat \<Rightarrow> nat \<Rightarrow> nat \<Rightarrow> string" where
  "clock_H_MM_SS h m s = dec h @ '':'' @ two_digits m @ '':'' @ two_digits s"

section \<open>The stream engine adapter: \<^verbatim>\<open>HLSPlayer\<close>\<close>

text \<open>
  The native media element is an external object; the fields below are the ones the adapter
  reads and writes. Arguments of \<^verbatim>\<open>seek\<close> and \<^verbatim>\<open>setVolume\<close> are finite numbers, and
  the element's setters are plain assignments.
\<close>

record video_element =
  src :: string
  poster :: "string option"
  volume :: real
  muted :: bool
  paused :: bool
  currentTime :: real
  duration :: number
  autoplay_attr :: bool
  controls_attr :: bool
  loop_attr :: bool
  loadedmetadata_handlers :: nat

record player_options =
  autoplay :: bool
  muted_option :: bool
  controls_option :: bool
  loop :: bool

text \<open>
  Callbacks are function objects compared by identity; the ones a caller supplies are
  numbered, the closures the widget creates itself are tagged by their purpose. A callback
  is opaque: calling it is recorded, with its argument, in \<open>delivered\<close>.
\<close>

datatype callback = Callback nat | Closure string

datatype error_type = NETWORK_ERROR | MEDIA_ERROR | OTHER_TYPE string

record error_data =
  fatal :: bool
  etype :: error_type

datatype js_error = TypeError string | Error string

fun message :: "js_error \<Rightarrow> string" where
  "message (TypeError m) = m"
| "message (Error m) = m"

datatype payload = NativeEvent string | HlsErrorData error_data | ErrorObject js_error

text \<open>
  The adaptive engine is an external object too: what the adapter does with it is the
  sequence of calls it makes on it. Engines live in a store, since the adapter refers to
  the one it holds (\<^verbatim>\<open>this.hls\<close>) by reference and can drop that reference.
\<close>

datatype engine_call =
  Hls_loadSource string | Hls_attachMedia | Hls_on string
  | Hls_startLoad | Hls_recoverMediaError | Hls_destroy

record hls_config =
  enableWorker :: bool
  lowLatencyMode :: bool
  backBufferLength :: nat

record engine =
  config :: hls_config
  calls :: "engine_call list"

record player =
  video :: video_element
  hls :: "nat option"
  options :: player_options
  listeners :: "string \<rightharpoonup> callback list"
  engines :: "engine list"
  delivered :: "(callback \<times> payload) list"
  console :: "string list"

text \<open>What the browser answers: engine support, native HLS support, the outcome of
  \<^verbatim>\<open>video.play()\<close> (\<open>None\<close> when the promise resolves).\<close>

record browser =
  Hls_isSupported :: bool
  canPlayType :: string
  play_rejection :: "js_error option"

text \<open>
  \<^verbatim>\<open>this.listeners\<close> is a plain object: reading a property that is not its own finds
  the members every object inherits from \<^verbatim>\<open>Object.prototype\<close>. Those are functions (or,
  for \<^verbatim>\<open>__proto__\<close>, an object): truthy, and without \<^verbatim>\<open>push\<close>, \<^verbatim>\<open>filter\<close> or
  \<^verbatim>\<open>forEach\<close>.
\<close>

definition Object_prototype_keys :: "string list" where
  "Object_prototype_keys =
     [''constructor'', ''__defineGetter__'', ''__defineSetter__'', ''hasOwnProperty'',
      ''__lookupGetter__'', ''__lookupSetter__'', ''isPrototypeOf'', ''propertyIsEnumerable'',
      ''toString'', ''valueOf'', ''__proto__'', ''toLocaleString'']"

datatype property = Undefined | Array "callback list" | Inherited

definition get_property :: "(string \<rightharpoonup> callback list) \<Rightarrow> string \<Rightarrow> property" where
  "get_property obj key =
     (case obj key of
        Some cbs \<Rightarrow> Array cbs
      | None \<Rightarrow> if key \<in> set Object_prototype_keys then Inherited else Undefined)"

definition truthy :: "string option \<Rightarrow> bool" where
  "truthy u = (case u of None \<Rightarrow> False | Some s \<Rightarrow> s \<noteq> [])"

text \<open>\<^verbatim>\<open>console.error\<close>, with the message only.\<close>

definition console_error :: "string \<Rightarrow> player \<Rightarrow> player" where
  "console_error line p = p\<lparr>console := console p @ [line]\<rparr>"

definition initial_listeners :: "string \<rightharpoonup> callback list" where
  "initial_listeners =
     [''play'' \<mapsto> [], ''pause'' \<mapsto> [], ''ended'' \<mapsto> [], ''timeupdate'' \<mapsto> [],
      ''loadedmetadata'' \<mapsto> [], ''error'' \<mapsto> []]"

text \<open>The constructor, with \<^verbatim>\<open>initialize\<close>; the options are the ones merged with the
  defaults.\<close>

definition HLSPlayer_new :: "video_element \<Rightarrow> player_options \<Rightarrow> player" where
  "HLSPlayer_new videoElement opts =
     \<lparr>video = videoElement\<lparr>autoplay_attr := autoplay opts, muted := muted_option opts,
        controls_attr := controls_option opts, loop_attr := loop opts\<rparr>,
      hls = None, options = opts, listeners = initial_listeners, engines = [],
      delivered = [], console = []\<rparr>"

subsection \<open>The event system\<close>

definition HLSPlayer_on :: "string \<Rightarrow> callback \<Rightarrow> player \<Rightarrow> js_error + player" where
  "HLSPlayer_on event cb p =
     (case get_property (listeners p) event of
        Undefined \<Rightarrow> Inr p
      | Array cbs \<Rightarrow> Inr (p\<lparr>listeners := (listeners p)(event \<mapsto> cbs @ [cb])\<rparr>)
      | Inherited \<Rightarrow> Inl (TypeError ''this.listeners[event].push is not a function''))"

definition HLSPlayer_off :: "string \<Rightarrow> callback \<Rightarrow> player \<Rightarrow> js_error + player" where
  "HLSPlayer_off event cb p =
     (case get_property (listeners p) event of
        Undefined \<Rightarrow> Inr p
      | Array cbs \<Rightarrow> Inr (p\<lparr>listeners := (listeners p)(event \<mapsto> filter (\<lambda>c. c \<noteq> cb) cbs)\<rparr>)
      | Inherited \<Rightarrow> Inl (TypeError ''this.listeners[event].filter is not a function''))"

definition HLSPlayer_emit :: "string \<Rightarrow> payload \<Rightarrow> player \<Rightarrow> js_error + player" where
  "HLSPlayer_emit event data p =
     (case get_property (listeners p) event of
        Undefined \<Rightarrow> Inr p
      | Array cbs \<Rightarrow> Inr (p\<lparr>delivered := delivered p @ map (\<lambda>cb. (cb, data)) cbs\<rparr>)
      | Inherited \<Rightarrow> Inl (TypeError ''this.listeners[event].forEach is not a function''))"

subsection \<open>Teardown\<close>

definition engine_call :: "engine_call \<Rightarrow> nat \<Rightarrow> player \<Rightarrow> player" where
  "engine_call c i p =
     p\<lparr>engines := (engines p)[i := (engines p ! i)\<lparr>calls := calls (engines p ! i) @ [c]\<rparr>]\<rparr>"

definition HLSPlayer_destroy :: "player \<Rightarrow> player" where
  "HLSPlayer_destroy p =
     (let p1 = (case hls p of
                  Some i \<Rightarrow> (engine_call Hls_destroy i p)\<lparr>hls := None\<rparr>
                | None \<Rightarrow> p)
      in p1\<lparr>video := (video p1)\<lparr>src := ''''\<rparr>, listeners := Map.empty\<rparr>)"

subsection \<open>Loading a source\<close>

definition new_Hls :: "string \<Rightarrow> engine" where
  "new_Hls url =
     \<lparr>config = \<lparr>enableWorker = True, lowLatencyMode = False, backBufferLength = 90\<rparr>,
      calls = [Hls_loadSource url, Hls_attachMedia, Hls_on ''hlsManifestParsed'',
               Hls_on ''hlsError'']\<rparr>"

definition HLSPlayer_loadSource :: "browser \<Rightarrow> string option \<Rightarrow> player \<Rightarrow> js_error + player" where
  "HLSPlayer_loadSource b hlsUrl p =
     (if \<not> truthy hlsUrl then Inr (console_error ''No HLS URL provided'' p)
      else if Hls_isSupported b then
        Inr (p\<lparr>engines := engines p @ [new_Hls (the hlsUrl)], hls := Some (length (engines p))\<rparr>)
      else if canPlayType b \<noteq> '''' then
        Inr (p\<lparr>video := (video p)\<lparr>src := the hlsUrl,
               loadedmetadata_handlers := Suc (loadedmetadata_handlers (video p))\<rparr>\<rparr>)
      else HLSPlayer_emit ''error'' (ErrorObject (Error ''HLS not supported''))
             (console_error ''HLS is not supported in this browser'' p))"

text \<open>
  The callback \<^verbatim>\<open>loadSource\<close> subscribes to the engine's error event. It acts on the
  engine the adapter holds when the error arrives.
\<close>

definition on_current_engine :: "engine_call \<Rightarrow> player \<Rightarrow> js_error + player" where
  "on_current_engine c p =
     (case hls p of
        None \<Rightarrow> Inl (TypeError ''Cannot read properties of null'')
      | Some i \<Rightarrow> Inr (engine_call c i p))"

definition on_Hls_ERROR :: "error_data \<Rightarrow> player \<Rightarrow> js_error + player" where
  "on_Hls_ERROR data p =
     (let p0 = console_error ''HLS error:'' p
      in case (if fatal data then
                 (case etype data of
                    NETWORK_ERROR \<Rightarrow>
                      on_current_engine Hls_startLoad
                        (console_error ''Fatal network error, trying to recover'' p0)
                  | MEDIA_ERROR \<Rightarrow>
                      on_current_engine Hls_recoverMediaError
                        (console_error ''Fatal media error, trying to recover'' p0)
                  | OTHER_TYPE t \<Rightarrow>
                      Inr (HLSPlayer_destroy (console_error ''Fatal error, cannot recover'' p0)))
               else Inr p0) of
           Inl e \<Rightarrow> Inl e
         | Inr p1 \<Rightarrow> HLSPlayer_emit ''error'' (HlsErrorData data) p1)"

subsection \<open>Playback\<close>

text \<open>\<^verbatim>\<open>play\<close> is asynchronous: \<open>Inl\<close> is a rejected promise, never an exception at the
  call.\<close>

definition HLSPlayer_play :: "browser \<Rightarrow> player \<Rightarrow> js_error + player" where
  "HLSPlayer_play b p =
     (case play_rejection b of
        None \<Rightarrow> Inr (p\<lparr>video := (video p)\<lparr>paused := False\<rparr>\<rparr>)
      | Some e \<Rightarrow> HLSPlayer_emit ''error'' (ErrorObject e) (console_error ''Error playing video:'' p))"

definition HLSPlayer_pause :: "player \<Rightarrow> player" where
  "HLSPlayer_pause p = p\<lparr>video := (video p)\<lparr>paused := True\<rparr>\<rparr>"

definition HLSPlayer_togglePlay :: "browser \<Rightarrow> player \<Rightarrow> player" where
  "HLSPlayer_togglePlay b p =
     (if paused (video p)
      then (case HLSPlayer_play b p of
              Inr p' \<Rightarrow> p'
            | Inl e \<Rightarrow> console_error ''Error playing video:'' p)
      else HLSPlayer_pause p)"

definition HLSPlayer_setVolume :: "real \<Rightarrow> player \<Rightarrow> player" where
  "HLSPlayer_setVolume v p = p\<lparr>video := (video p)\<lparr>volume := max 0 (min 1 v)\<rparr>\<rparr>"

definition HLSPlayer_getVolume :: "player \<Rightarrow> real" where
  "HLSPlayer_getVolume p = volume (video p)"

definition HLSPlayer_toggleMute :: "player \<Rightarrow> bool \<times> player" where
  "HLSPlayer_toggleMute p =
     (let p' = p\<lparr>video := (video p)\<lparr>muted := \<not> muted (video p)\<rparr>\<rparr>
      in (muted (video p'), p'))"

definition HLSPlayer_seek :: "real \<Rightarrow> player \<Rightarrow> player" where
  "HLSPlayer_seek t p = p\<lparr>video := (video p)\<lparr>currentTime := t\<rparr>\<rparr>"

definition HLSPlayer_getCurrentTime :: "player \<Rightarrow> real" where
  "HLSPlayer_getCurrentTime p = currentTime (video p)"

definition HLSPlayer_getDuration :: "player \<Rightarrow> number" where
  "HLSPlayer_getDuration p = duration (video p)"

section \<open>The Vimeo resolver: \<^verbatim>\<open>VimeoAPI\<close>\<close>

text \<open>The class \<^verbatim>\<open>\d\<close> of a regular expression without the unicode flag.\<close>

definition is_digit :: "char \<Rightarrow> bool" where
  "is_digit c = (c \<in> set ''0123456789'')"

fun after_prefix :: "string \<Rightarrow> string \<Rightarrow> string option" where
  "after_prefix [] s = Some s"
| "after_prefix (c # cs) [] = None"
| "after_prefix (c # cs) (x # xs) = (if c = x then after_prefix cs xs else None)"

text \<open>
  The three patterns are a literal followed by \<^verbatim>\<open>(\d+)\<close>. \<open>match_at lit s\<close> matches such a
  pattern at the start of \<open>s\<close> and gives the captured group, which is greedy;
  \<open>String_match lit s\<close> is \<^verbatim>\<open>s.match(pattern)\<close>, the match at the leftmost position that
  has one.
\<close>

definition match_at :: "string \<Rightarrow> string \<Rightarrow> string option" where
  "match_at lit s =
     (case after_prefix lit s of
        None \<Rightarrow> None
      | Some rest \<Rightarrow>
          (let ds = takeWhile is_digit rest in if ds = [] then None else Some ds))"

fun String_match :: "string \<Rightarrow> string \<Rightarrow> string option" where
  "String_match lit [] = match_at lit []"
| "String_match lit (x # xs) =
     (case match_at lit (x # xs) of
        Some ds \<Rightarrow> Some ds
      | None \<Rightarrow> String_match lit xs)"

definition patterns :: "string list" where
  "patterns = [''vimeo.com/'', ''vimeo.com/video/'', ''player.vimeo.com/video/'']"

fun first_match :: "string list \<Rightarrow> string \<Rightarrow> string option" where
  "first_match [] url = None"
| "first_match (pattern # rest) url =
     (case String_match pattern url of
        Some ds \<Rightarrow> Some ds
      | None \<Rightarrow> first_match rest url)"

text \<open>\<open>None\<close> is \<^verbatim>\<open>null\<close>.\<close>

definition extractVideoId :: "string \<Rightarrow> string option" where
  "extractVideoId url =
     (case first_match patterns url of
        Some ds \<Rightarrow> Some ds
      | None \<Rightarrow> if url \<noteq> [] \<and> list_all is_digit url then Some url else None)"




text \<open>
  The two network calls are answered by the environment: for a video identifier (and a
  token), either the value the method returns or the error it throws. What
  \<^verbatim>\<open>getHLSFromPlayer\<close> returns is what the facade hands to \<^verbatim>\<open>loadHLS\<close> as the URL.
\<close>

record video_data =
  data_hlsUrl :: "string option"

record vimeo =
  getHLSFromPlayer :: "string \<Rightarrow> js_error + string"
  getVideoData :: "string \<Rightarrow> string \<Rightarrow> js_error + video_data"

datatype request = PlayerPage string | VideoApi string string

section \<open>The facade: \<^verbatim>\<open>VimeoHLSPlayer\<close>, with the overlay's constructor and teardown\<close>

record facade_options =
  vimeoId :: "string option"
  hlsUrl :: "string option"
  vimeoAccessToken :: "string option"
  autoplay_option :: bool
  muted_flag :: bool
  controls_flag :: bool
  aspectRatio :: "string option"
  poster_option :: "string option"

text \<open>The children the widget gives its container: the video, the overlay, and error
  panels, each a heading with the title and a paragraph with the message.\<close>

datatype element = VideoElement | ControlsElement | ErrorElement string string

text \<open>The style holds the percentage as a number; the template literal that prints it
  is not modelled.\<close>

record container_element =
  classList :: "string list"
  style_paddingTop :: "number option"
  style_position :: string
  style_height :: string
  children :: "element list"

record video_controls =
  hideTimeout :: bool

text \<open>
  The facade with what it refers to. \<open>requests\<close> lists the resolver calls made and
  \<open>messages\<close> the facade's own console lines.
\<close>

record facade =
  container :: container_element
  facade_options :: facade_options
  player :: "player option"
  controls :: "video_controls option"
  videoElement :: bool
  requests :: "request list"
  messages :: "string list"

definition classList_add :: "string \<Rightarrow> facade \<Rightarrow> facade" where
  "classList_add c f =
     f\<lparr>container := (container f)\<lparr>classList :=
         (if c \<in> set (classList (container f)) then classList (container f)
          else classList (container f) @ [c])\<rparr>\<rparr>"

definition classList_remove :: "string \<Rightarrow> facade \<Rightarrow> facade" where
  "classList_remove c f =
     f\<lparr>container := (container f)\<lparr>classList := removeAll c (classList (container f))\<rparr>\<rparr>"

definition appendChild :: "element \<Rightarrow> facade \<Rightarrow> facade" where
  "appendChild e f = f\<lparr>container := (container f)\<lparr>children := children (container f) @ [e]\<rparr>\<rparr>"

definition remove_element :: "element \<Rightarrow> facade \<Rightarrow> facade" where
  "remove_element e f =
     f\<lparr>container := (container f)\<lparr>children := removeAll e (children (container f))\<rparr>\<rparr>"

text \<open>\<^verbatim>\<open>s.split(c)\<close> with a one-character separator.\<close>

fun split :: "char \<Rightarrow> string \<Rightarrow> string list" where
  "split c [] = [[]]"
| "split c (x # xs) =
     (if x = c then [] # split c xs
      else (case split c xs of
              [] \<Rightarrow> [[x]]
            | part # parts \<Rightarrow> (x # part) # parts))"

text \<open>An element of the destructured array; a missing one is \<^verbatim>\<open>undefined\<close>, which the
  division turns into \<^verbatim>\<open>NaN\<close>.\<close>

definition element_at :: "number list \<Rightarrow> nat \<Rightarrow> number" where
  "element_at xs i = (if i < length xs then xs ! i else NaN)"

text \<open>\<open>Number\<close> is the conversion \<^verbatim>\<open>Number(string)\<close> of the language.\<close>

definition setupContainer :: "(string \<Rightarrow> number) \<Rightarrow> facade \<Rightarrow> facade" where
  "setupContainer Number f =
     (let f1 = classList_add ''vimeo-hls-player'' f
      in if truthy (aspectRatio (facade_options f1)) then
           (let parts = map Number (split (CHR '':'') (the (aspectRatio (facade_options f1))));
                width = element_at parts 0;
                height = element_at parts 1;
                paddingTop = js_mul (js_div height width) (Num 100)
            in f1\<lparr>container := (container f1)\<lparr>style_paddingTop := Some paddingTop,
                  style_position := ''relative'', style_height := ''0''\<rparr>\<rparr>)
         else f1)"

text \<open>\<^verbatim>\<open>document.createElement('video')\<close>.\<close>

definition new_video :: video_element where
  "new_video =
     \<lparr>src = '''', poster = None, volume = 1, muted = False, paused = True, currentTime = 0,
      duration = NaN, autoplay_attr = False, controls_attr = False, loop_attr = False,
      loadedmetadata_handlers = 0\<rparr>"

definition createVideoElement :: "facade \<Rightarrow> video_element \<times> facade" where
  "createVideoElement f =
     (let v = (if truthy (poster_option (facade_options f))
               then new_video\<lparr>poster := poster_option (facade_options f)\<rparr>
               else new_video)
      in (v, (appendChild VideoElement f)\<lparr>videoElement := True\<rparr>))"

definition showError :: "string \<Rightarrow> string \<Rightarrow> facade \<Rightarrow> facade" where
  "showError title msg f =
     appendChild (ErrorElement title msg) f"

subsection \<open>The overlay\<close>

fun on_all :: "(string \<times> callback) list \<Rightarrow> player \<Rightarrow> js_error + player" where
  "on_all [] p = Inr p"
| "on_all ((event, cb) # rest) p =
     (case HLSPlayer_on event cb p of
        Inl e \<Rightarrow> Inl e
      | Inr p' \<Rightarrow> on_all rest p')"

definition controls_subscriptions :: "(string \<times> callback) list" where
  "controls_subscriptions =
     [(''play'', Closure ''play: updatePlayButton(true)''),
      (''pause'', Closure ''pause: updatePlayButton(false)''),
      (''ended'', Closure ''ended: updatePlayButton(false)''),
      (''timeupdate'', Closure ''updateProgress''),
      (''loadedmetadata'', Closure ''updateDuration''),
      (''play'', Closure ''startAutoHide''),
      (''pause'', Closure ''stopAutoHide'')]"

definition null_error :: js_error where
  "null_error = TypeError ''Cannot read properties of null''"

definition VideoControls_new :: "facade \<Rightarrow> js_error + facade" where
  "VideoControls_new f =
     (let f1 = appendChild ControlsElement f
      in case player f1 of
           None \<Rightarrow> Inl null_error
         | Some p \<Rightarrow>
             (case on_all controls_subscriptions p of
                Inl e \<Rightarrow> Inl e
              | Inr p' \<Rightarrow> Inr (f1\<lparr>player := Some p', controls := Some \<lparr>hideTimeout = False\<rparr>\<rparr>)))"

definition VideoControls_destroy :: "facade \<Rightarrow> facade" where
  "VideoControls_destroy f =
     (remove_element ControlsElement f)\<lparr>controls :=
        map_option (\<lambda>c. c\<lparr>hideTimeout := False\<rparr>) (controls f)\<rparr>"

subsection \<open>Loading\<close>

definition loadHLS :: "browser \<Rightarrow> string option \<Rightarrow> facade \<Rightarrow> facade" where
  "loadHLS b url f =
     (let f1 = classList_add ''loading'' f
      in case (case player f1 of
                 None \<Rightarrow> Inl null_error
               | Some p \<Rightarrow>
                   (case HLSPlayer_loadSource b url p of
                      Inl e \<Rightarrow> Inl e
                    | Inr p1 \<Rightarrow>
                        HLSPlayer_on ''loadedmetadata'' (Closure ''remove loading'') p1)) of
           Inr p2 \<Rightarrow> f1\<lparr>player := Some p2\<rparr>
         | Inl e \<Rightarrow>
             showError ''Failed to load HLS stream'' (message e)
               (classList_remove ''loading'' f1))"

text \<open>The operator \<^verbatim>\<open>||\<close> on a string or null and a string.\<close>

definition or_else :: "string option \<Rightarrow> string \<Rightarrow> string" where
  "or_else a b = (if truthy a then the a else b)"

text \<open>
  \<^verbatim>\<open>loadVimeo\<close>, run to completion. The identifier is
  \<^verbatim>\<open>extractVideoId(vimeoId) || vimeoId\<close>; an error thrown anywhere after the inner
  \<^verbatim>\<open>try\<close> reaches the outer \<^verbatim>\<open>catch\<close>, which shows it.
\<close>

definition token_required :: string where
  "token_required =
     ''Could not load video. For private videos, provide a Vimeo access token.''"

definition loadVimeo ::
    "browser \<Rightarrow> vimeo \<Rightarrow> string \<Rightarrow> string option \<Rightarrow> facade \<Rightarrow> facade" where
  "loadVimeo b vm vimeoId' accessToken f =
     (let f1 = classList_add ''loading'' f;
          videoId = or_else (extractVideoId vimeoId') vimeoId';
          f2 = f1\<lparr>requests := requests f1 @ [PlayerPage videoId]\<rparr>
      in case getHLSFromPlayer vm videoId of
           Inr url \<Rightarrow> classList_remove ''loading'' (loadHLS b (Some url) f2)
         | Inl e1 \<Rightarrow>
             (let f3 = f2\<lparr>messages := messages f2
                         @ [''Could not get HLS from player, trying API...'']\<rparr>
              in case (if truthy accessToken then
                         (let f4 = f3\<lparr>requests := requests f3
                                     @ [VideoApi videoId (the accessToken)]\<rparr>
                          in case getVideoData vm videoId (the accessToken) of
                               Inl e \<Rightarrow> (f4, Some e)
                             | Inr videoData \<Rightarrow>
                                 if truthy (data_hlsUrl videoData)
                                 then (loadHLS b (data_hlsUrl videoData) f4, None)
                                 else (f4, Some (Error ''No HLS stream available for this video'')))
                       else (f3, Some (Error token_required))) of
                   (f5, None) \<Rightarrow> classList_remove ''loading'' f5
                 | (f5, Some e) \<Rightarrow>
                     showError ''Failed to load Vimeo video'' (message e)
                       (classList_remove ''loading'' f5)))"

subsection \<open>Construction\<close>

definition initialize :: "browser \<Rightarrow> vimeo \<Rightarrow> (string \<Rightarrow> number) \<Rightarrow> facade \<Rightarrow> facade" where
  "initialize b vm Number f =
     (let f1 = setupContainer Number f;
          (v, f2) = createVideoElement f1;
          f3 = f2\<lparr>player := Some (HLSPlayer_new v
                  \<lparr>autoplay = autoplay_option (facade_options f2),
                   muted_option = muted_flag (facade_options f2),
                   controls_option = False, loop = False\<rparr>)\<rparr>
      in case (if controls_flag (facade_options f3) then VideoControls_new f3 else Inr f3) of
           Inl e \<Rightarrow> f3
         | Inr f4 \<Rightarrow>
             (let f5 = (if truthy (hlsUrl (facade_options f4))
                        then loadHLS b (hlsUrl (facade_options f4)) f4
                        else if truthy (vimeoId (facade_options f4))
                        then loadVimeo b vm (the (vimeoId (facade_options f4)))
                               (vimeoAccessToken (facade_options f4)) f4
                        else f4)
              in case player f5 of
                   None \<Rightarrow> f5
                 | Some p \<Rightarrow>
                     (case HLSPlayer_on ''error'' (Closure ''showError'') p of
                        Inl e \<Rightarrow> f5
                      | Inr p' \<Rightarrow> f5\<lparr>player := Some p'\<rparr>)))"

text \<open>The constructor; \<open>None\<close> is a selector that matches nothing (or a null argument).\<close>

definition VimeoHLSPlayer_new ::
    "browser \<Rightarrow> vimeo \<Rightarrow> (string \<Rightarrow> number) \<Rightarrow> container_element option \<Rightarrow> facade_options
      \<Rightarrow> js_error + facade" where
  "VimeoHLSPlayer_new b vm Number c opts =
     (case c of
        None \<Rightarrow> Inl (Error ''Container element not found'')
      | Some el \<Rightarrow>
          Inr (initialize b vm Number
                 \<lparr>container = el, facade_options = opts, player = None, controls = None,
                  videoElement = False, requests = [], messages = []\<rparr>))"

subsection \<open>The public methods\<close>

text \<open>Each forwards to \<^verbatim>\<open>this.player\<close>, and raises if that is null.\<close>

definition VimeoHLSPlayer_play :: "browser \<Rightarrow> facade \<Rightarrow> js_error + facade" where
  "VimeoHLSPlayer_play b f =
     (case player f of
        None \<Rightarrow> Inl null_error
      | Some p \<Rightarrow>
          Inr (f\<lparr>player := Some (case HLSPlayer_play b p of
                                    Inr p' \<Rightarrow> p'
                                  | Inl e \<Rightarrow> console_error ''Error playing video:'' p)\<rparr>))"

definition VimeoHLSPlayer_pause :: "facade \<Rightarrow> js_error + facade" where
  "VimeoHLSPlayer_pause f =
     (case player f of
        None \<Rightarrow> Inl null_error
      | Some p \<Rightarrow> Inr (f\<lparr>player := Some (HLSPlayer_pause p)\<rparr>))"

definition VimeoHLSPlayer_togglePlay :: "browser \<Rightarrow> facade \<Rightarrow> js_error + facade" where
  "VimeoHLSPlayer_togglePlay b f =
     (case player f of
        None \<Rightarrow> Inl null_error
      | Some p \<Rightarrow> Inr (f\<lparr>player := Some (HLSPlayer_togglePlay b p)\<rparr>))"

definition VimeoHLSPlayer_seek :: "real \<Rightarrow> facade \<Rightarrow> js_error + facade" where
  "VimeoHLSPlayer_seek t f =
     (case player f of
        None \<Rightarrow> Inl null_error
      | Some p \<Rightarrow> Inr (f\<lparr>player := Some (HLSPlayer_seek t p)\<rparr>))"

definition VimeoHLSPlayer_setVolume :: "real \<Rightarrow> facade \<Rightarrow> js_error + facade" where
  "VimeoHLSPlayer_setVolume v f =
     (case player f of
        None \<Rightarrow> Inl null_error
      | Some p \<Rightarrow> Inr (f\<lparr>player := Some (HLSPlayer_setVolume v p)\<rparr>))"

definition VimeoHLSPlayer_getVolume :: "facade \<Rightarrow> js_error + real" where
  "VimeoHLSPlayer_getVolume f =
     (case player f of
        None \<Rightarrow> Inl null_error
      | Some p \<Rightarrow> Inr (HLSPlayer_getVolume p))"

definition VimeoHLSPlayer_toggleMute :: "facade \<Rightarrow> js_error + bool \<times> facade" where
  "VimeoHLSPlayer_toggleMute f =
     (case player f of
        None \<Rightarrow> Inl null_error
      | Some p \<Rightarrow>
          (let (m, p') = HLSPlayer_toggleMute p in Inr (m, f\<lparr>player := Some p'\<rparr>)))"

definition VimeoHLSPlayer_getCurrentTime :: "facade \<Rightarrow> js_error + real" where
  "VimeoHLSPlayer_getCurrentTime f =
     (case player f of
        None \<Rightarrow> Inl null_error
      | Some p \<Rightarrow> Inr (HLSPlayer_getCurrentTime p))"

definition VimeoHLSPlayer_getDuration :: "facade \<Rightarrow> js_error + number" where
  "VimeoHLSPlayer_getDuration f =
     (case player f of
        None \<Rightarrow> Inl null_error
      | Some p \<Rightarrow> Inr (HLSPlayer_getDuration p))"

definition VimeoHLSPlayer_on :: "string \<Rightarrow> callback \<Rightarrow> facade \<Rightarrow> js_error + facade" where
  "VimeoHLSPlayer_on event cb f =
     (case player f of
        None \<Rightarrow> Inl null_error
      | Some p \<Rightarrow>
          (case HLSPlayer_on event cb p of
             Inl e \<Rightarrow> Inl e
           | Inr p' \<Rightarrow> Inr (f\<lparr>player := Some p'\<rparr>)))"

definition VimeoHLSPlayer_off :: "string \<Rightarrow> callback \<Rightarrow> facade \<Rightarrow> js_error + facade" where
  "VimeoHLSPlayer_off event cb f =
     (case player f of
        None \<Rightarrow> Inl null_error
      | Some p \<Rightarrow>
          (case HLSPlayer_off event cb p of
             Inl e \<Rightarrow> Inl e
           | Inr p' \<Rightarrow> Inr (f\<lparr>player := Some p'\<rparr>)))"

definition VimeoHLSPlayer_destroy :: "facade \<Rightarrow> facade" where
  "VimeoHLSPlayer_destroy f =
     (let f1 = (case controls f of Some c \<Rightarrow> VideoControls_destroy f | None \<Rightarrow> f);
          f2 = (case player f1 of
                  Some p \<Rightarrow> f1\<lparr>player := Some (HLSPlayer_destroy p)\<rparr>
                | None \<Rightarrow> f1);
          f3 = (if videoElement f2 then remove_element VideoElement f2 else f2)
      in classList_remove ''vimeo-hls-player'' f3)"

section \<open>Sample environments\<close>

text \<open>The options of a facade constructed without any: the defaults of the constructor.\<close>

definition default_options :: facade_options where
  "default_options =
     \<lparr>vimeoId = None, hlsUrl = None, vimeoAccessToken = None, autoplay_option = False,
      muted_flag = False, controls_flag = True, aspectRatio = Some ''16:9'',
      poster_option = None\<rparr>"

definition empty_container :: container_element where
  "empty_container =
     \<lparr>classList = [], style_paddingTop = None, style_position = '''', style_height = '''',
      children = []\<rparr>"

text \<open>A browser where the engine library is supported and playback starts.\<close>

definition engine_browser :: browser where
  "engine_browser = \<lparr>Hls_isSupported = True, canPlayType = '''', play_rejection = None\<rparr>"

text \<open>A network where both resolver calls throw.\<close>

definition unreachable_vimeo :: vimeo where
  "unreachable_vimeo =
     \<lparr>getHLSFromPlayer = (\<lambda>videoId. Inl (Error ''CORS_ERROR'')),
      getVideoData = (\<lambda>videoId token. Inl (Error ''Failed to fetch video data''))\<rparr>"

text \<open>
  \<^verbatim>\<open>Number(s)\<close> on the empty string and on strings of decimal digits. The other
  literals the conversion accepts (signs, fractions, exponents, blanks, other radixes) are
  not read here: the facade takes the conversion as a parameter, and this instance serves
  the examples.
\<close>

definition digit_value :: "char \<Rightarrow> nat" where
  "digit_value c = length (takeWhile (\<lambda>d. d \<noteq> c) ''0123456789'')"

definition Number_decimal :: "string \<Rightarrow> number" where
  "Number_decimal s =
     (if list_all is_digit s then round64 (real (foldl (\<lambda>n c. 10 * n + digit_value c) 0 s))
      else NaN)"

text \<open>The options of an adapter constructed without any.\<close>

definition HLSPlayer_defaults :: player_options where
  "HLSPlayer_defaults =
     \<lparr>autoplay = False, muted_option = False, controls_option = False, loop = False\<rparr>"

text \<open>An adapter that has loaded a source through the engine and has one listener for
  \<^verbatim>\<open>error\<close>.\<close>

definition listening_player :: player where
  "listening_player =
     \<lparr>video = new_video, hls = Some 0, options = HLSPlayer_defaults,
      listeners = initial_listeners(''error'' \<mapsto> [Callback 1]),
      engines = [new_Hls ''https://example.com/master.m3u8''],
      delivered = [], console = []\<rparr>"

text \<open>The facade the constructor builds on an empty container with the default options
  (no source to load).\<close>

definition default_facade :: facade where
  "default_facade =
     initialize engine_browser unreachable_vimeo Number_decimal
       \<lparr>container = empty_container, facade_options = default_options, player = None,
        controls = None, videoElement = False, requests = [], messages = []\<rparr>"

section \<open>Properties of the arithmetic\<close>

lemmas binary64_simps = round64_def binade_def pow2_def round_even_def ilog2.simps Let_def

lemma ilog2_bounds: "0 < n \<Longrightarrow> 2 ^ ilog2 n \<le> n \<and> n < 2 ^ Suc (ilog2 n)"
proof (induction n rule: ilog2.induct)
  case (1 n)
  show ?case
  proof (cases "n < 2")
    case True
    with "1.prems" show ?thesis by (simp add: ilog2.simps)
  next
    case False
    then have pos: "0 < n div 2" by simp
    from "1.IH" [OF False pos]
    have ih: "2 ^ ilog2 (n div 2) \<le> n div 2" "n div 2 < 2 ^ Suc (ilog2 (n div 2))" by simp_all
    have eq: "ilog2 n = Suc (ilog2 (n div 2))"
      using False by (subst ilog2.simps) simp
    have "2 * 2 ^ ilog2 (n div 2) \<le> 2 * (n div 2)" using ih(1) by simp
    also have "\<dots> \<le> n" by simp
    finally have lo: "2 ^ ilog2 n \<le> n" by (simp add: eq)
    have "n < 2 * (n div 2) + 2" by presburger
    also have "\<dots> \<le> 2 * 2 ^ Suc (ilog2 (n div 2))" using ih(2) by simp
    finally have "n < 2 ^ Suc (ilog2 n)" by (simp add: eq)
    with lo show ?thesis by simp
  qed
qed

lemma pow2_pos: "0 < pow2 e"
  by (simp add: pow2_def)

lemma pow2_nat: "pow2 (int k) = 2 ^ k"
  by (simp add: pow2_def)

lemma pow2_neg_nat: "pow2 (- int k) = 1 / 2 ^ k"
proof (cases "k = 0")
  case True
  then show ?thesis by (simp add: pow2_def)
next
  case False
  then have "\<not> 0 \<le> - int k" by simp
  then show ?thesis by (simp add: pow2_def)
qed

text \<open>The exponent is the one of the binade: the number lies between two consecutive
  powers of two, unless it is below the normal range.\<close>

lemma binade_upper:
  assumes "x \<noteq> 0"
  shows "\<bar>x\<bar> < pow2 (binade x + 1)"
proof (cases "1 \<le> \<bar>x\<bar>")
  case True
  define n where "n = nat \<lfloor>\<bar>x\<bar>\<rfloor>"
  have n: "0 < n" using True by (simp add: n_def)
  have "\<bar>x\<bar> < of_int (\<lfloor>\<bar>x\<bar>\<rfloor> + 1)" by linarith
  also have "\<dots> = real (n + 1)" using True by (simp add: n_def)
  also have "\<dots> \<le> real (2 ^ Suc (ilog2 n))"
    using ilog2_bounds [OF n] by (intro of_nat_mono) simp
  finally have "\<bar>x\<bar> < 2 ^ Suc (ilog2 n)" by simp
  moreover have "binade x + 1 = int (Suc (ilog2 n))"
    using True by (simp add: binade_def n_def)
  ultimately show ?thesis by (simp only: pow2_nat)
next
  case False
  define m where "m = nat \<lceil>1 / \<bar>x\<bar>\<rceil> - 1"
  define k where "k = ilog2 m"
  have inv: "1 < 1 / \<bar>x\<bar>" using False assms by simp
  then have c: "2 \<le> \<lceil>1 / \<bar>x\<bar>\<rceil>" by linarith
  then have m: "0 < m" and mc: "int m = \<lceil>1 / \<bar>x\<bar>\<rceil> - 1" unfolding m_def by linarith+
  have "real m < 1 / \<bar>x\<bar>"
  proof -
    have "real_of_int (\<lceil>1 / \<bar>x\<bar>\<rceil> - 1) < 1 / \<bar>x\<bar>" by linarith
    then show ?thesis using mc by (metis of_int_of_nat_eq)
  qed
  moreover have "2 ^ k \<le> real m"
    using ilog2_bounds [OF m] unfolding k_def by (metis of_nat_le_iff of_nat_numeral of_nat_power)
  ultimately have "2 ^ k < 1 / \<bar>x\<bar>" by linarith
  then have lt: "\<bar>x\<bar> < 1 / 2 ^ k"
    using assms by (simp add: field_simps)
  have b: "binade x = max (- int (Suc k)) (- 1022)"
    using False by (simp add: binade_def m_def k_def)
  show ?thesis
  proof (cases "- int (Suc k) \<le> - 1022")
    case True
    then have "binade x + 1 = - int 1021" using b by simp
    moreover have "(1::real) / 2 ^ k \<le> 1 / 2 ^ 1021"
      using True by (intro divide_left_mono power_increasing) simp_all
    ultimately show ?thesis using lt by (simp only: pow2_neg_nat)
  next
    case False
    then have "binade x + 1 = - int k" using b by simp
    then show ?thesis using lt by (simp only: pow2_neg_nat)
  qed
qed

lemma binade_lower:
  assumes "pow2 (- 1022) \<le> \<bar>x\<bar>"
  shows "pow2 (binade x) \<le> \<bar>x\<bar>"
proof (cases "1 \<le> \<bar>x\<bar>")
  case True
  define n where "n = nat \<lfloor>\<bar>x\<bar>\<rfloor>"
  have n: "0 < n" using True by (simp add: n_def)
  have "real (2 ^ ilog2 n) \<le> real n"
    using ilog2_bounds [OF n] by (intro of_nat_mono) simp
  also have "\<dots> \<le> \<bar>x\<bar>" using True by (simp add: n_def)
  finally have "2 ^ ilog2 n \<le> \<bar>x\<bar>" by simp
  moreover have "binade x = int (ilog2 n)"
    using True by (simp add: binade_def n_def)
  ultimately show ?thesis by (simp only: pow2_nat)
next
  case False
  have x0: "x \<noteq> 0" using assms pow2_pos [of "- 1022"] by auto
  define m where "m = nat \<lceil>1 / \<bar>x\<bar>\<rceil> - 1"
  define k where "k = ilog2 m"
  have inv: "1 < 1 / \<bar>x\<bar>" using False x0 by simp
  then have c: "2 \<le> \<lceil>1 / \<bar>x\<bar>\<rceil>" by linarith
  then have m: "0 < m" and mc: "int (m + 1) = \<lceil>1 / \<bar>x\<bar>\<rceil>" unfolding m_def by linarith+
  have "1 / \<bar>x\<bar> \<le> real_of_int \<lceil>1 / \<bar>x\<bar>\<rceil>" by linarith
  also have "\<dots> = real (m + 1)" using mc by (metis of_int_of_nat_eq)
  also have "\<dots> \<le> real (2 ^ Suc k)"
    using ilog2_bounds [OF m] unfolding k_def by (intro of_nat_mono) simp
  finally have "1 / \<bar>x\<bar> \<le> 2 ^ Suc k" by simp
  then have ge: "1 / 2 ^ Suc k \<le> \<bar>x\<bar>"
    using x0 by (simp add: field_simps)
  have b: "binade x = max (- int (Suc k)) (- 1022)"
    using False by (simp add: binade_def m_def k_def)
  show ?thesis
  proof (cases "- int (Suc k) \<le> - 1022")
    case True
    then have "binade x = - 1022" using b by simp
    then show ?thesis using assms by simp
  next
    case False
    then have "binade x = - int (Suc k)" using b by simp
    then show ?thesis using ge by (simp only: pow2_neg_nat)
  qed
qed

text \<open>The rounded value is within half a spacing of the exact one.\<close>

lemma round_even_near: "\<bar>real_of_int (round_even y) - y\<bar> \<le> 1 / 2"
  by (auto simp: round_even_def Let_def)

lemma round64_near:
  assumes "round64 x = Num y"
  shows "\<bar>y - x\<bar> \<le> pow2 (binade x - 52) / 2"
proof (cases "x = 0")
  case True
  with assms show ?thesis using pow2_pos [of "binade x - 52"] by (simp add: round64_def)
next
  case False
  define u where "u = pow2 (binade x - 52)"
  have u: "0 < u" by (simp add: u_def pow2_pos)
  from assms False have y: "y = of_int (round_even (x / u)) * u"
    by (simp add: round64_def Let_def u_def split: if_splits)
  have "(of_int (round_even (x / u)) - x / u) * u = y - x"
    using u by (simp add: y field_simps)
  then have "\<bar>y - x\<bar> = \<bar>of_int (round_even (x / u)) - x / u\<bar> * \<bar>u\<bar>"
    by (simp only: abs_mult [symmetric])
  then have "\<bar>y - x\<bar> = \<bar>of_int (round_even (x / u)) - x / u\<bar> * u"
    using u by simp
  also have "\<dots> \<le> 1 / 2 * u"
    using round_even_near [of "x / u"] u by (intro mult_right_mono) simp_all
  finally show ?thesis by (simp add: u_def)
qed

lemma pow2_powi: "pow2 e = 2 powi e"
proof (cases "0 \<le> e")
  case True
  then show ?thesis by (simp add: pow2_def power_int_def)
next
  case False
  have "inverse (2::real) ^ nat (- e) = 1 / 2 ^ nat (- e)"
    by (simp add: power_one_over inverse_eq_divide)
  with False show ?thesis by (simp only: pow2_def power_int_def if_False)
qed

lemma pow2_mono: "a \<le> b \<Longrightarrow> pow2 a \<le> pow2 b"
  by (simp add: pow2_powi power_int_increasing)

lemma pow2_less_cancel: "pow2 a < pow2 b \<Longrightarrow> a < b"
  using pow2_mono [of b a] by (cases "a < b") simp_all

lemma pow2_add: "pow2 (a + b) = pow2 a * pow2 b"
  by (simp add: pow2_powi power_int_add)

lemma round_even_of_int: "round_even (of_int z) = z"
  by (simp add: round_even_def)

text \<open>A nonzero number in a binade of moderate exponent is rounded to a finite value no
  further away than half the spacing.\<close>

lemma round64_Num:
  assumes "x \<noteq> 0" and "binade x \<le> b" and "\<bar>x\<bar> + pow2 (b - 53) < 2 ^ 1024"
  shows "\<exists>y. round64 x = Num y \<and> \<bar>y - x\<bar> \<le> pow2 (b - 53)"
proof -
  define u where "u = pow2 (binade x - 52)"
  define y where "y = of_int (round_even (x / u)) * u"
  have u: "0 < u" by (simp add: u_def pow2_pos)
  have "(of_int (round_even (x / u)) - x / u) * u = y - x"
    using u by (simp add: y_def field_simps)
  then have "\<bar>y - x\<bar> = \<bar>of_int (round_even (x / u)) - x / u\<bar> * \<bar>u\<bar>"
    by (simp only: abs_mult [symmetric])
  also have "\<dots> \<le> 1 / 2 * \<bar>u\<bar>"
    using round_even_near [of "x / u"] by (intro mult_right_mono) simp_all
  also have "\<dots> = pow2 (- 1) * pow2 (binade x - 52)"
    using u by (simp add: u_def pow2_def)
  also have "\<dots> = pow2 (binade x - 53)"
    by (simp add: pow2_add [symmetric])
  also have "\<dots> \<le> pow2 (b - 53)"
    using assms(2) by (intro pow2_mono) simp
  finally have near: "\<bar>y - x\<bar> \<le> pow2 (b - 53)" .
  then have "\<bar>y\<bar> < 2 ^ 1024" using assms(3) by linarith
  then have "\<not> 2 ^ 1024 \<le> y" "\<not> y \<le> - (2 ^ 1024)" by linarith+
  then have "round64 x = Num y"
    using assms(1) by (simp add: round64_def Let_def u_def y_def)
  with near show ?thesis by blast
qed

text \<open>A whole number below \<^verbatim>\<open>2^53\<close> in magnitude is a binary64 value.\<close>

lemma round64_int:
  assumes "\<bar>i\<bar> < 2 ^ 53"
  shows "round64 (of_int i) = Num (of_int i)"
proof (cases "i = 0")
  case True
  then show ?thesis by (simp add: round64_def)
next
  case False
  define x :: real where "x = of_int i"
  have x0: "x \<noteq> 0" using False by (simp add: x_def)
  have x1: "1 \<le> \<bar>x\<bar>" using False by (simp add: x_def flip: of_int_abs)
  have "pow2 (- 1022) \<le> pow2 0" by (intro pow2_mono) simp
  then have "pow2 (- 1022) \<le> \<bar>x\<bar>" using x1 by (simp add: pow2_def)
  then have "pow2 (binade x) \<le> \<bar>x\<bar>" by (rule binade_lower)
  also have "\<bar>x\<bar> < 2 ^ 53"
    using assms by (simp add: x_def flip: of_int_abs)
  also have "(2::real) ^ 53 = pow2 53" by (simp add: pow2_def)
  finally have e: "binade x \<le> 52" using pow2_less_cancel [of "binade x" 53] by simp
  define k where "k = nat (52 - binade x)"
  have k: "binade x - 52 = - int k" using e by (simp add: k_def)
  have u: "pow2 (binade x - 52) = 1 / 2 ^ k" by (simp only: k pow2_neg_nat)
  have "x / pow2 (binade x - 52) = x * 2 ^ k"
    by (simp only: u) simp
  also have "\<dots> = of_int (i * 2 ^ k)"
    by (simp add: x_def)
  finally have r: "round_even (x / pow2 (binade x - 52)) = i * 2 ^ k"
    by (simp only: round_even_of_int)
  have "of_int (round_even (x / pow2 (binade x - 52))) * pow2 (binade x - 52)
      = of_int (i * 2 ^ k) * (1 / 2 ^ k)"
    by (subst r, subst u, rule refl)
  also have "\<dots> = x"
    by (simp add: x_def)
  finally have y: "of_int (round_even (x / pow2 (binade x - 52))) * pow2 (binade x - 52) = x" .
  have "\<bar>x\<bar> < 2 ^ 1024"
  proof -
    have "(2::real) ^ 53 \<le> 2 ^ 1024" by (intro power_increasing) simp_all
    with \<open>\<bar>x\<bar> < 2 ^ 53\<close> show ?thesis by linarith
  qed
  then have "\<not> 2 ^ 1024 \<le> x" "\<not> x \<le> - (2 ^ 1024)" by linarith+
  then have "round64 x = Num x"
    using x0 by (simp add: round64_def Let_def y)
  then show ?thesis by (simp add: x_def)
qed

text \<open>
  Dividing a whole number by a small positive one and taking the floor gives the integer
  quotient, although the division rounds: the quotient is either whole, or further from
  the next whole number than the rounding can move it.
\<close>

lemma Math_floor_js_div_whole:
  assumes "0 \<le> n" and "n < 2 ^ 40 * c" and "0 < c" and "c \<le> 4096"
  shows "Math_floor (js_div (Num (of_int n)) (Num (of_int c))) = Whole (n div c)"
proof (cases "n mod c = 0")
  case True
  then have "real_of_int n / of_int c = of_int (n div c)"
    using assms(3) by (metis dvd_eq_mod_eq_0 dvd_mult_div_cancel mult.commute
        nonzero_mult_div_cancel_left of_int_0_eq_iff of_int_mult less_irrefl)
  moreover have "\<bar>n div c\<bar> < 2 ^ 53"
  proof -
    have "(n div c) * c \<le> n" using True div_mult_mod_eq [of n c] by simp
    with assms(2) have "(n div c) * c < 2 ^ 40 * c" by linarith
    then have "n div c < 2 ^ 40" using assms(3) by (simp add: mult_less_cancel_right)
    moreover have "0 \<le> n div c" using assms(1,3) by (simp add: pos_imp_zdiv_nonneg_iff)
    moreover have "(2::int) ^ 40 < 2 ^ 53" by simp
    ultimately show ?thesis by linarith
  qed
  ultimately show ?thesis
    using assms(3) by (simp add: round64_int)
next
  case False
  define q where "q = n div c"
  define r where "r = n mod c"
  define x :: real where "x = of_int n / of_int c"
  have r: "1 \<le> r" "r \<le> c - 1"
    using False pos_mod_sign [OF assms(3), of n] pos_mod_bound [OF assms(3), of n]
    unfolding r_def by linarith+
  have n: "n = q * c + r" by (simp add: q_def r_def)
  have cpos: "0 < real_of_int c" using assms(3) by simp
  have x: "x = of_int q + of_int r / of_int c"
    using cpos by (simp add: x_def n field_simps)
  have lo: "of_int q + 1 / of_int c \<le> x"
    using r(1) cpos by (simp add: x divide_right_mono)
  have hi: "x \<le> of_int q + 1 - 1 / of_int c"
  proof -
    have "real_of_int r / of_int c \<le> (of_int c - 1) / of_int c"
      using r(2) cpos by (intro divide_right_mono) simp_all
    also have "\<dots> = 1 - 1 / of_int c" using cpos by (simp add: field_simps)
    finally show ?thesis by (simp add: x)
  qed
  have q0: "0 \<le> q" using assms(1,3) by (simp add: q_def pos_imp_zdiv_nonneg_iff)
  have c4096: "1 / 4096 \<le> 1 / real_of_int c"
    using assms(3,4) by (intro divide_left_mono) simp_all
  have xpos: "1 / 4096 \<le> x" using lo q0 c4096 by linarith
  then have x0: "x \<noteq> 0" and ax: "\<bar>x\<bar> = x" by simp_all
  have xlt: "x < 2 ^ 40"
  proof -
    have "real_of_int n < of_int (2 ^ 40 * c)" using assms(2) by (simp only: of_int_less_iff)
    then show ?thesis using cpos by (simp add: x_def field_simps)
  qed
  have "pow2 (- 1022) \<le> pow2 (- 12)" by (intro pow2_mono) simp
  also have "pow2 (- 12) = 1 / 4096" by (simp add: pow2_def)
  finally have "pow2 (- 1022) \<le> \<bar>x\<bar>" using xpos ax by linarith
  then have "pow2 (binade x) \<le> \<bar>x\<bar>" by (rule binade_lower)
  also have "\<bar>x\<bar> < 2 ^ 40" using xlt ax by simp
  also have "(2::real) ^ 40 = pow2 40" by (simp add: pow2_def)
  finally have b: "binade x \<le> 39" using pow2_less_cancel [of "binade x" 40] by simp
  have p14: "pow2 (39 - 53) = 1 / 16384" by (simp add: pow2_def)
  have "\<bar>x\<bar> + pow2 (39 - 53) < 2 ^ 1024"
  proof -
    have "(2::real) ^ 41 \<le> 2 ^ 1024" by (intro power_increasing) simp_all
    moreover have "\<bar>x\<bar> + pow2 (39 - 53) < 2 ^ 41" using xlt ax p14 by simp
    ultimately show ?thesis by linarith
  qed
  from round64_Num [OF x0 b this] obtain y
    where y: "round64 x = Num y" and near: "\<bar>y - x\<bar> \<le> 1 / 16384"
    using p14 by auto
  have "1 / 16384 < 1 / real_of_int c"
  proof -
    have "(1::real) / 16384 < 1 / 4096" by simp
    with c4096 show ?thesis by linarith
  qed
  with near lo hi have "of_int q \<le> y" "y < of_int q + 1" by linarith+
  then have "\<lfloor>y\<rfloor> = q" by (rule floor_unique)
  then show ?thesis
    using assms(3) y by (simp add: x_def q_def)
qed

section \<open>Properties of \<^verbatim>\<open>formatTime\<close>\<close>

lemma digit_char_0: "digit_char 0 = CHR ''0''"
  by (simp add: digit_char_def)

lemma dec_small: "n < 10 \<Longrightarrow> dec n = [digit_char n]"
  by (simp add: dec.simps)

lemma padStart_dec_two_digits: "n < 100 \<Longrightarrow> padStart 2 (CHR ''0'') (dec n) = two_digits n"
proof (cases "n < 10")
  case True
  then show ?thesis
    by (simp add: padStart_def two_digits_def dec_small digit_char_0)
next
  case False
  assume "n < 100"
  with False have d: "n div 10 < 10" by simp
  have "dec n = dec (n div 10) @ [digit_char (n mod 10)]"
    using False by (subst dec.simps) simp
  with d show ?thesis
    by (simp add: padStart_def two_digits_def dec_small)
qed

lemma div_3600: "(x::int) div 3600 = (x div 60) div 60"
proof -
  have "x div (60 * 60) = (x div 60) div 60"
    by (rule zdiv_zmult2_eq) simp
  then show ?thesis by simp
qed

lemma minutes_mod: "(x::int) div 60 - 60 * (x div 3600) = (x div 60) mod 60"
  by (simp add: div_3600 minus_mult_div_eq_mod)

lemma minutes_of_remainder: "((x::int) mod 3600) div 60 = (x div 60) mod 60"
proof -
  have "x mod 3600 = x + (- (x div 3600) * 60) * 60"
    by (simp add: minus_mult_div_eq_mod [symmetric])
  then have "(x mod 3600) div 60 = (x + (- (x div 3600) * 60) * 60) div 60" by simp
  also have "\<dots> = (- (x div 3600) * 60) + x div 60"
    by (rule div_mult_self1) simp
  also have "\<dots> = (x div 60) mod 60"
    using minutes_mod [of x] by simp
  finally show ?thesis .
qed

lemma js_rem_whole:
  assumes "0 \<le> n" and "0 < c"
  shows "js_rem (Num (of_int n)) (Num (of_int c)) = Num (of_int (n mod c))"
proof -
  have "0 \<le> real_of_int n / of_int c" using assms by simp
  then have "trunc (real_of_int n / of_int c) = n div c"
    by (simp add: trunc_def floor_divide_of_int_eq)
  moreover have "real_of_int n - of_int c * of_int (n div c) = of_int (n mod c)"
    by (simp add: minus_mult_div_eq_mod [symmetric])
  ultimately show ?thesis using assms(2) by simp
qed

text \<open>
  On a whole number of seconds, up to some hundred million years, the clock is as the
  specification has it, with the roundings of the two divisions taken into account.
\<close>

lemma formatTime_whole_seconds:
  assumes "n < 3600 * 2 ^ 40"
  shows "formatTime shortest (Num (real n)) =
    (if 3600 \<le> n then clock_H_MM_SS (n div 3600) ((n div 60) mod 60) (n mod 60)
     else clock_M_SS (n div 60) (n mod 60))"
proof -
  define i where "i = int n"
  have i0: "0 \<le> i" by (simp add: i_def)
  have ilt: "i < 2 ^ 40 * 3600" using assms by (simp add: i_def)
  have num: "Num (real n) = Num (of_int i)" by (simp add: i_def)
  have c3600: "(0::int) < 3600" "(3600::int) \<le> 4096" by simp_all
  have "Math_floor (js_div (Num (of_int i)) (Num (of_int 3600))) = Whole (i div 3600)"
    by (rule Math_floor_js_div_whole [OF i0 ilt c3600])
  then have h: "Math_floor (js_div (Num (of_int i)) (Num 3600)) = Whole (i div 3600)"
    by (simp only: of_int_numeral)
  have r: "js_rem (Num (of_int i)) (Num 3600) = Num (of_int (i mod 3600))"
    using js_rem_whole [OF i0 c3600(1)] by (simp only: of_int_numeral)
  have r0: "0 \<le> i mod 3600" by simp
  have rlt: "i mod 3600 < 2 ^ 40 * 60"
  proof -
    have "i mod 3600 < 3600" by simp
    then show ?thesis by simp
  qed
  have c60: "(0::int) < 60" "(60::int) \<le> 4096" by simp_all
  have "Math_floor (js_div (Num (of_int (i mod 3600))) (Num (of_int 60)))
      = Whole ((i mod 3600) div 60)"
    by (rule Math_floor_js_div_whole [OF r0 rlt c60])
  then have m: "Math_floor (js_div (Num (of_int (i mod 3600))) (Num 60))
      = Whole ((i div 60) mod 60)"
    by (simp only: minutes_of_remainder of_int_numeral)
  have "js_rem (Num (of_int i)) (Num 60) = Num (of_int (i mod 60))"
    using js_rem_whole [OF i0 c60(1)] by (simp only: of_int_numeral)
  then have s: "Math_floor (js_rem (Num (of_int i)) (Num 60)) = Whole (i mod 60)"
    by simp
  have hb: "\<bar>i div 3600\<bar> < 2 ^ 53" "\<not> i div 3600 < 0"
  proof -
    have "i div 3600 * 3600 + i mod 3600 = i" by (rule div_mult_mod_eq)
    with r0 have "(i div 3600) * 3600 \<le> i" by linarith
    with ilt have "(i div 3600) * 3600 < 2 ^ 40 * 3600" by linarith
    then have "i div 3600 < 2 ^ 40" by simp
    moreover have "0 \<le> i div 3600" using i0 by (simp add: pos_imp_zdiv_nonneg_iff)
    ultimately show "\<bar>i div 3600\<bar> < 2 ^ 53" "\<not> i div 3600 < 0" by simp_all
  qed
  have mb: "\<bar>(i div 60) mod 60\<bar> < 2 ^ 53" "\<not> (i div 60) mod 60 < 0"
      "nat ((i div 60) mod 60) < 100"
    by (simp_all add: not_less abs_if)
  have sb: "\<bar>i mod 60\<bar> < 2 ^ 53" "\<not> i mod 60 < 0" "nat (i mod 60) < 100"
    by (simp_all add: not_less abs_if)
  have hpos: "0 < i div 3600 \<longleftrightarrow> 3600 \<le> n"
    by (simp add: i_def pos_imp_zdiv_pos_iff)
  have nat_h: "nat (i div 3600) = n div 3600" by (simp add: i_def nat_div_distrib)
  have nat_m: "nat ((i div 60) mod 60) = (n div 60) mod 60"
    by (simp add: i_def nat_div_distrib nat_mod_distrib zdiv_int zmod_int)
  have nat_s: "nat (i mod 60) = n mod 60" by (simp add: i_def nat_mod_distrib)
  have small: "n < 3600 \<Longrightarrow> (n div 60) mod 60 = n div 60"
    by (simp add: div_less_iff_less_mult)
  have th: "toString shortest (Whole (i div 3600)) = dec (n div 3600)"
    using hb by (simp add: nat_h)
  have tm: "padStart 2 (CHR ''0'') (toString shortest (Whole ((i div 60) mod 60)))
      = two_digits ((n div 60) mod 60)"
    using mb by (simp add: nat_m padStart_dec_two_digits)
  have tm': "toString shortest (Whole ((i div 60) mod 60)) = dec ((n div 60) mod 60)"
    using mb by (simp add: nat_m)
  have ts: "padStart 2 (CHR ''0'') (toString shortest (Whole (i mod 60))) = two_digits (n mod 60)"
    using sb by (simp add: nat_s padStart_dec_two_digits)
  have gt: "js_gt0 (Whole (i div 3600)) \<longleftrightarrow> 3600 \<le> n"
    using hpos by simp
  have "formatTime shortest (Num (of_int i)) =
      (if 3600 \<le> n
       then dec (n div 3600) @ '':'' @ two_digits ((n div 60) mod 60) @ '':'' @ two_digits (n mod 60)
       else dec ((n div 60) mod 60) @ '':'' @ two_digits (n mod 60))"
    unfolding formatTime_def Let_def h r m s gt th tm tm' ts
    by (simp add: isNaN_def padStart_dec_two_digits)
  then show ?thesis
    unfolding num using small
    by (simp add: clock_H_MM_SS_def clock_M_SS_def)
qed

text \<open>
  C5. The claim: below an hour the clock is \<open>M:SS\<close>, from an hour on it is \<open>H:MM:SS\<close>, and
  for \<^verbatim>\<open>NaN\<close> it is the string \<^verbatim>\<open>0:00\<close>. The duration of an unbounded stream is
  \<^verbatim>\<open>Infinity\<close>, which is not \<^verbatim>\<open>NaN\<close> and lies above an hour; for it the clock reads
  \<^verbatim>\<open>Infinity:NaN:NaN\<close>.
\<close>

theorem formatTime_infinite_duration:
  "formatTime shortest PosInf = ''Infinity:NaN:NaN''
   \<and> formatTime shortest NaN = ''0:00''"
  by (simp add: formatTime_def isNaN_def padStart_def)

section \<open>Properties of the adapter\<close>

text \<open>
  C7. After \<^verbatim>\<open>setVolume(v)\<close> the volume of the media element is \<open>v\<close> clamped to the
  interval from 0 to 1: it is 0 when \<open>v < 0\<close>, 1 when \<open>v > 1\<close>, and \<open>v\<close> otherwise; so
  \<^verbatim>\<open>setVolume(-1)\<close> gives 0 and \<^verbatim>\<open>setVolume(2)\<close> gives 1. The facade's method forwards
  to the adapter's.
\<close>

theorem setVolume_clamps:
  "volume (video (HLSPlayer_setVolume v p)) = (if v < 0 then 0 else if 1 < v then 1 else v)
   \<and> volume (video (HLSPlayer_setVolume (- 1) p)) = 0
   \<and> volume (video (HLSPlayer_setVolume 2 p)) = 1
   \<and> VimeoHLSPlayer_setVolume v (f\<lparr>player := Some p\<rparr>)
       = Inr (f\<lparr>player := Some (HLSPlayer_setVolume v p)\<rparr>)"
  by (simp add: HLSPlayer_setVolume_def VimeoHLSPlayer_setVolume_def)

text \<open>
  C10. For a falsy argument (\<^verbatim>\<open>null\<close> or \<^verbatim>\<open>undefined\<close>, and the empty string)
  \<^verbatim>\<open>loadSource\<close> returns normally and leaves the player as it was, but for the line it
  writes to the console: no engine is created, the source of the media element is not
  assigned, and nothing is delivered to a listener.
\<close>

theorem loadSource_falsy_url:
  "HLSPlayer_loadSource b None p = Inr (p\<lparr>console := console p @ [''No HLS URL provided'']\<rparr>)
   \<and> HLSPlayer_loadSource b (Some '''') p
       = Inr (p\<lparr>console := console p @ [''No HLS URL provided'']\<rparr>)"
  by (simp add: HLSPlayer_loadSource_def truthy_def console_error_def)

lemma listening_player_reachable:
  "HLSPlayer_loadSource engine_browser (Some ''https://example.com/master.m3u8'')
     (HLSPlayer_new new_video HLSPlayer_defaults) = Inr p1
   \<Longrightarrow> HLSPlayer_on ''error'' (Callback 1) p1 = Inr listening_player"
  by (auto simp: HLSPlayer_loadSource_def HLSPlayer_new_def HLSPlayer_on_def truthy_def
      engine_browser_def get_property_def initial_listeners_def listening_player_def
      new_video_def HLSPlayer_defaults_def)

lemma get_property_own: "obj key = Some cbs \<Longrightarrow> get_property obj key = Array cbs"
  by (simp add: get_property_def)

lemma get_property_error_empty: "get_property Map.empty ''error'' = Undefined"
  by (simp add: get_property_def Object_prototype_keys_def)

lemma emit_error_after_destroy:
  "HLSPlayer_emit ''error'' d (HLSPlayer_destroy p) = Inr (HLSPlayer_destroy p)"
  by (simp add: HLSPlayer_emit_def HLSPlayer_destroy_def Let_def get_property_error_empty
      split: option.split)

lemma delivered_destroy: "delivered (HLSPlayer_destroy p) = delivered p"
  by (simp add: HLSPlayer_destroy_def Let_def engine_call_def split: option.split)

lemma listeners_destroy: "listeners (HLSPlayer_destroy p) = Map.empty"
  by (simp add: HLSPlayer_destroy_def Let_def split: option.split)

text \<open>What the callback does on a fatal error of the network or the media class, with an
  engine held and listeners registered: the recovery call, then the fan-out.\<close>

lemma fatal_network_error_recovers:
  assumes "hls p = Some i" and "listeners p ''error'' = Some cbs"
  shows "\<exists>p'. on_Hls_ERROR \<lparr>fatal = True, etype = NETWORK_ERROR\<rparr> p = Inr p'
     \<and> engines p' = (engines p)[i := (engines p ! i)\<lparr>calls := calls (engines p ! i) @ [Hls_startLoad]\<rparr>]
     \<and> delivered p' = delivered p
          @ map (\<lambda>cb. (cb, HlsErrorData \<lparr>fatal = True, etype = NETWORK_ERROR\<rparr>)) cbs
     \<and> hls p' = Some i \<and> listeners p' = listeners p \<and> video p' = video p"
  using assms
  by (simp add: on_Hls_ERROR_def on_current_engine_def engine_call_def console_error_def
      HLSPlayer_emit_def get_property_own)

lemma fatal_media_error_recovers:
  assumes "hls p = Some i" and "listeners p ''error'' = Some cbs"
  shows "\<exists>p'. on_Hls_ERROR \<lparr>fatal = True, etype = MEDIA_ERROR\<rparr> p = Inr p'
     \<and> engines p' = (engines p)[i := (engines p ! i)\<lparr>calls := calls (engines p ! i) @ [Hls_recoverMediaError]\<rparr>]
     \<and> delivered p' = delivered p
          @ map (\<lambda>cb. (cb, HlsErrorData \<lparr>fatal = True, etype = MEDIA_ERROR\<rparr>)) cbs
     \<and> hls p' = Some i \<and> listeners p' = listeners p \<and> video p' = video p"
  using assms
  by (simp add: on_Hls_ERROR_def on_current_engine_def engine_call_def console_error_def
      HLSPlayer_emit_def get_property_own)

text \<open>On a fatal error of any other class the registry is emptied before the fan-out, so
  no listener is called, whatever was registered.\<close>

lemma fatal_other_error_reaches_nobody:
  "\<exists>p'. on_Hls_ERROR \<lparr>fatal = True, etype = OTHER_TYPE t\<rparr> p = Inr p'
     \<and> delivered p' = delivered p \<and> listeners p' = Map.empty \<and> hls p' = None"
  by (simp add: on_Hls_ERROR_def emit_error_after_destroy delivered_destroy listeners_destroy)
     (simp add: HLSPlayer_destroy_def console_error_def Let_def split: option.split)

text \<open>
  C1. The claim: on a fatal engine error the callback restarts the load for the network
  class, asks the engine to recover for the media class, destroys the engine for any other
  class, and in every case forwards the error to the registered \<^verbatim>\<open>error\<close> listeners.
  On the adapter with one such listener, a fatal error of another class destroys the engine
  and reaches no listener; a fatal network error reaches the listener.
\<close>

theorem fatal_other_error_not_forwarded:
  "map_sum id (\<lambda>p. (delivered p, listeners p ''error'', hls p, map calls (engines p)))
     (on_Hls_ERROR \<lparr>fatal = True, etype = OTHER_TYPE ''otherError''\<rparr> listening_player)
   = Inr ([], None, None,
          [[Hls_loadSource ''https://example.com/master.m3u8'', Hls_attachMedia,
            Hls_on ''hlsManifestParsed'', Hls_on ''hlsError'', Hls_destroy]])
   \<and> map_sum id delivered
       (on_Hls_ERROR \<lparr>fatal = True, etype = NETWORK_ERROR\<rparr> listening_player)
     = Inr [(Callback 1, HlsErrorData \<lparr>fatal = True, etype = NETWORK_ERROR\<rparr>)]"
  by (simp add: on_Hls_ERROR_def listening_player_def HLSPlayer_destroy_def console_error_def
      engine_call_def on_current_engine_def HLSPlayer_emit_def get_property_def
      initial_listeners_def new_Hls_def Object_prototype_keys_def)

text \<open>An event name that is neither a key of the registry nor a member every object
  inherits is ignored by all three methods.\<close>

lemma unknown_event_ignored:
  assumes "listeners p event = None" and "event \<notin> set Object_prototype_keys"
  shows "HLSPlayer_on event cb p = Inr p \<and> HLSPlayer_off event cb p = Inr p
     \<and> HLSPlayer_emit event d p = Inr p"
  using assms by (simp add: HLSPlayer_on_def HLSPlayer_off_def HLSPlayer_emit_def get_property_def)

text \<open>
  C9. The claim: for an event name that is not one of the six keys of the registry,
  \<^verbatim>\<open>on\<close>, \<^verbatim>\<open>off\<close> and \<^verbatim>\<open>emit\<close> do nothing and do not raise. On a new adapter the name
  \<^verbatim>\<open>toString\<close>, which is none of the six, makes each of the three raise a type error.
\<close>

theorem inherited_event_name_raises:
  "''toString'' \<notin> dom (listeners (HLSPlayer_new new_video HLSPlayer_defaults))
   \<and> HLSPlayer_on ''toString'' (Callback 1) (HLSPlayer_new new_video HLSPlayer_defaults)
       = Inl (TypeError ''this.listeners[event].push is not a function'')
   \<and> HLSPlayer_off ''toString'' (Callback 1) (HLSPlayer_new new_video HLSPlayer_defaults)
       = Inl (TypeError ''this.listeners[event].filter is not a function'')
   \<and> HLSPlayer_emit ''toString'' (NativeEvent ''toString'')
         (HLSPlayer_new new_video HLSPlayer_defaults)
       = Inl (TypeError ''this.listeners[event].forEach is not a function'')"
  by (simp add: HLSPlayer_on_def HLSPlayer_off_def HLSPlayer_emit_def HLSPlayer_new_def
      get_property_def initial_listeners_def Object_prototype_keys_def)

section \<open>Properties of the resolver\<close>

lemma after_prefix_append: "after_prefix lit (lit @ s) = Some s"
  by (induction lit) simp_all

lemma after_prefix_Some: "after_prefix lit s = Some rest \<Longrightarrow> s = lit @ rest"
  by (induction lit s rule: after_prefix.induct) (auto split: if_splits)


lemma match_at_literal:
  assumes "ds \<noteq> []" and "list_all is_digit ds"
  shows "match_at lit (lit @ ds) = Some ds"
proof -
  have tw: "takeWhile is_digit ds = ds"
    using assms(2) by (simp add: takeWhile_eq_all_conv list_all_iff)
  show ?thesis
    using assms(1) by (simp add: match_at_def after_prefix_append tw)
qed

lemma match_at_other_char: "lit \<noteq> [] \<Longrightarrow> x \<noteq> hd lit \<Longrightarrow> match_at lit (x # xs) = None"
  by (cases lit) (simp_all add: match_at_def)

lemma match_at_Nil: "match_at lit [] = None"
  by (cases lit) (simp_all add: match_at_def)

text \<open>A prefix without the first character of the literal is skipped.\<close>

lemma String_match_skip:
  assumes "lit \<noteq> []" and "hd lit \<notin> set p"
  shows "String_match lit (p @ s) = String_match lit s"
  using assms by (induction p) (auto simp: match_at_other_char)



lemma v_not_digit: "\<not> is_digit (CHR ''v'')"
  by (simp add: is_digit_def)


text \<open>What a match means: the literal occurs in the string, followed by the digits
  returned.\<close>

lemma match_at_sound:
  assumes "match_at lit s = Some ds"
  shows "\<exists>r. s = lit @ ds @ r \<and> ds \<noteq> [] \<and> list_all is_digit ds"
proof -
  from assms obtain rest where rest: "after_prefix lit s = Some rest"
    and ds: "ds = takeWhile is_digit rest" "ds \<noteq> []"
    by (auto simp: match_at_def Let_def split: option.splits if_splits)
  have "s = lit @ rest" using rest by (rule after_prefix_Some)
  moreover have "rest = ds @ dropWhile is_digit rest" using ds by simp
  moreover have "list_all is_digit ds"
    using ds by (auto simp: list_all_iff dest: set_takeWhileD)
  ultimately show ?thesis using ds by metis
qed

lemma String_match_sound:
  assumes "String_match lit s = Some ds"
  shows "\<exists>p r. s = p @ lit @ ds @ r \<and> ds \<noteq> [] \<and> list_all is_digit ds"
  using assms
proof (induction s)
  case Nil
  then show ?case by (simp add: match_at_Nil)
next
  case (Cons x xs)
  show ?case
  proof (cases "match_at lit (x # xs)")
    case (Some d)
    with Cons.prems have "d = ds" by simp
    with Some match_at_sound [of lit "x # xs" ds] show ?thesis
      by (metis append_Nil)
  next
    case None
    with Cons.prems have "String_match lit xs = Some ds" by simp
    then obtain p r where "xs = p @ lit @ ds @ r" "ds \<noteq> []" "list_all is_digit ds"
      using Cons.IH by blast
    then have "x # xs = (x # p) @ lit @ ds @ r" by simp
    then show ?thesis using \<open>ds \<noteq> []\<close> \<open>list_all is_digit ds\<close> by blast
  qed
qed

lemma String_match_None:
  assumes "\<forall>p ds r. ds \<noteq> [] \<and> list_all is_digit ds \<longrightarrow> s \<noteq> p @ lit @ ds @ r"
  shows "String_match lit s = None"
proof (cases "String_match lit s")
  case None
  then show ?thesis .
next
  case (Some ds)
  from String_match_sound [OF this] assms show ?thesis by blast
qed

lemma extractVideoId_no_shape:
  assumes "\<forall>p ds r. ds \<noteq> [] \<and> list_all is_digit ds \<longrightarrow> url \<noteq> p @ ''vimeo.com/'' @ ds @ r"
    and "\<forall>p ds r. ds \<noteq> [] \<and> list_all is_digit ds \<longrightarrow> url \<noteq> p @ ''vimeo.com/video/'' @ ds @ r"
    and "\<forall>p ds r. ds \<noteq> [] \<and> list_all is_digit ds
           \<longrightarrow> url \<noteq> p @ ''player.vimeo.com/video/'' @ ds @ r"
    and "\<not> (url \<noteq> [] \<and> list_all is_digit url)"
  shows "extractVideoId url = None"
proof -
  have "String_match ''vimeo.com/'' url = None"
    using assms(1) by (rule String_match_None)
  moreover have "String_match ''vimeo.com/video/'' url = None"
    using assms(2) by (rule String_match_None)
  moreover have "String_match ''player.vimeo.com/video/'' url = None"
    using assms(3) by (rule String_match_None)
  ultimately show ?thesis
    using assms(4) by (simp add: extractVideoId_def patterns_def)
qed


lemma short_string_no_shape:
  assumes "length s < length lit"
  shows "\<forall>p ds r. ds \<noteq> [] \<and> list_all is_digit ds \<longrightarrow> s \<noteq> p @ lit @ ds @ r"
proof (intro allI impI notI)
  fix p ds r :: string
  assume "s = p @ lit @ ds @ r"
  then have "length s = length (p @ lit @ ds @ r)" by simp
  with assms show False by simp
qed

















section \<open>Properties of the facade\<close>

lemmas facade_simps =
  classList_add_def classList_remove_def appendChild_def remove_element_def showError_def

lemmas construct_simps =
  default_facade_def initialize_def setupContainer_def createVideoElement_def
  default_options_def empty_container_def facade_simps truthy_def
  Number_decimal_def is_digit_def digit_value_def element_at_def VideoControls_new_def
  controls_subscriptions_def HLSPlayer_on_def HLSPlayer_new_def get_property_def
  initial_listeners_def new_video_def Let_def

lemma default_facade_constructed:
  "VimeoHLSPlayer_new engine_browser unreachable_vimeo Number_decimal (Some empty_container)
     default_options = Inr default_facade"
  by (simp add: VimeoHLSPlayer_new_def default_facade_def)

lemma requests_default_facade: "requests default_facade = []"
  by (simp add: construct_simps)

lemma children_default_facade:
  "children (container default_facade) = [VideoElement, ControlsElement]"
  by (simp add: construct_simps)

lemma controls_default_facade: "controls default_facade = Some \<lparr>hideTimeout = False\<rparr>"
  by (simp add: construct_simps)

lemma player_default_facade:
  "\<exists>p. player default_facade = Some p \<and> listeners p ''error'' = Some [Closure ''showError'']
     \<and> listeners p ''toString'' = None \<and> hls p = None"
  by (simp add: construct_simps)

lemma requests_loadHLS: "requests (loadHLS b url f) = requests f"
  by (simp add: loadHLS_def facade_simps Let_def split: option.split sum.split)

lemma loadVimeo_requests:
  "requests (loadVimeo b vm x token f)
   = requests f @ PlayerPage (or_else (extractVideoId x) x)
       # (if isl (getHLSFromPlayer vm (or_else (extractVideoId x) x)) \<and> truthy token
          then [VideoApi (or_else (extractVideoId x) x) (the token)] else [])"
  by (simp add: loadVimeo_def facade_simps requests_loadHLS Let_def
      split: sum.split option.split)

text \<open>
  C3, as the claim has it: an input that matches none of the three shapes and is not a
  string of digits makes the resolution fail with an error for an invalid identifier, and
  no network request is made with the raw input as the identifier. On the input
  \<^verbatim>\<open>trailer\<close> the facade requests the player page of the identifier \<^verbatim>\<open>trailer\<close>.
\<close>

theorem loadVimeo_invalid_identifier_counterexample:
  "extractVideoId ''trailer'' = None
   \<and> requests (loadVimeo engine_browser unreachable_vimeo ''trailer'' None default_facade)
       = [PlayerPage ''trailer'']"
proof -
  have "extractVideoId ''trailer'' = None"
  proof (rule extractVideoId_no_shape)
    show "\<not> (''trailer'' \<noteq> [] \<and> list_all is_digit ''trailer'')"
      by (simp add: is_digit_def)
  qed (rule short_string_no_shape, simp)+
  then show ?thesis
    by (simp add: loadVimeo_requests requests_default_facade or_else_def truthy_def
        unreachable_vimeo_def)
qed

text \<open>
  C3, amended. For an input that matches none of the three shapes and is not a string of
  digits, \<^verbatim>\<open>extractVideoId\<close> gives \<^verbatim>\<open>null\<close> and \<^verbatim>\<open>loadVimeo\<close> takes the raw input as
  the identifier: the first request it makes is for the player page of that input.
\<close>

theorem loadVimeo_raw_identifier:
  assumes "\<forall>p ds r. ds \<noteq> [] \<and> list_all is_digit ds \<longrightarrow> url \<noteq> p @ ''vimeo.com/'' @ ds @ r"
    and "\<forall>p ds r. ds \<noteq> [] \<and> list_all is_digit ds \<longrightarrow> url \<noteq> p @ ''vimeo.com/video/'' @ ds @ r"
    and "\<forall>p ds r. ds \<noteq> [] \<and> list_all is_digit ds
           \<longrightarrow> url \<noteq> p @ ''player.vimeo.com/video/'' @ ds @ r"
    and "\<not> (url \<noteq> [] \<and> list_all is_digit url)"
  shows "extractVideoId url = None
     \<and> (\<exists>more. requests (loadVimeo b vm url token f) = requests f @ PlayerPage url # more)"
proof -
  have none: "extractVideoId url = None"
    using assms by (rule extractVideoId_no_shape)
  then have "or_else (extractVideoId url) url = url"
    by (simp add: or_else_def truthy_def)
  with none show ?thesis
    by (simp add: loadVimeo_requests)
qed

theorem loadVimeo_raw_identifier_witness:
  "extractVideoId ''trailer'' = None
   \<and> (\<exists>more. requests (loadVimeo engine_browser unreachable_vimeo ''trailer''
                  (Some ''token'') default_facade)
         = requests default_facade @ PlayerPage ''trailer'' # more)"
proof -
  have n: "\<not> (''trailer'' \<noteq> [] \<and> list_all is_digit ''trailer'')" by (simp add: is_digit_def)
  have s1: "\<forall>p ds r. ds \<noteq> [] \<and> list_all is_digit ds \<longrightarrow> ''trailer'' \<noteq> p @ ''vimeo.com/'' @ ds @ r"
    by (rule short_string_no_shape) simp
  have s2: "\<forall>p ds r. ds \<noteq> [] \<and> list_all is_digit ds
      \<longrightarrow> ''trailer'' \<noteq> p @ ''vimeo.com/video/'' @ ds @ r"
    by (rule short_string_no_shape) simp
  have s3: "\<forall>p ds r. ds \<noteq> [] \<and> list_all is_digit ds
      \<longrightarrow> ''trailer'' \<noteq> p @ ''player.vimeo.com/video/'' @ ds @ r"
    by (rule short_string_no_shape) simp
  show ?thesis
    by (rule loadVimeo_raw_identifier [OF s1 s2 s3 n])
qed

text \<open>Every call of \<^verbatim>\<open>loadSource\<close> that returns leaves a trace in the adapter.\<close>

lemma loadSource_changes_player: "HLSPlayer_loadSource b url p \<noteq> Inr p"
proof
  assume eq: "HLSPlayer_loadSource b url p = Inr p"
  have c: "console (p\<lparr>console := console p @ [l]\<rparr>) \<noteq> console p" for l by simp
  have m: "HLSPlayer_emit ev d q = Inr p \<Longrightarrow> console p = console q" for ev d q
    by (auto simp: HLSPlayer_emit_def split: property.splits)
  show False
  proof (cases "truthy url")
    case False
    with eq c [of "''No HLS URL provided''"] show False
      by (simp add: HLSPlayer_loadSource_def console_error_def)
  next
    case True
    show False
    proof (cases "Hls_isSupported b")
      case True
      with \<open>truthy url\<close> eq
      have "p\<lparr>engines := engines p @ [new_Hls (the url)], hls := Some (length (engines p))\<rparr> = p"
        by (simp add: HLSPlayer_loadSource_def)
      then have "engines (p\<lparr>engines := engines p @ [new_Hls (the url)],
          hls := Some (length (engines p))\<rparr>) = engines p"
        by (rule arg_cong)
      then show False by simp
    next
      case False
      show False
      proof (cases "canPlayType b = []")
        case False
        with \<open>truthy url\<close> \<open>\<not> Hls_isSupported b\<close> eq
        have "p\<lparr>video := (video p)\<lparr>src := the url,
            loadedmetadata_handlers := Suc (loadedmetadata_handlers (video p))\<rparr>\<rparr> = p"
          by (simp add: HLSPlayer_loadSource_def)
        then have "loadedmetadata_handlers (video (p\<lparr>video := (video p)\<lparr>src := the url,
            loadedmetadata_handlers := Suc (loadedmetadata_handlers (video p))\<rparr>\<rparr>))
            = loadedmetadata_handlers (video p)"
          by (rule arg_cong)
        then show False by simp
      next
        case True
        with \<open>truthy url\<close> \<open>\<not> Hls_isSupported b\<close> eq
        have "console p = console (console_error ''HLS is not supported in this browser'' p)"
          by (simp add: HLSPlayer_loadSource_def m)
        then show False by (simp add: console_error_def)
      qed
    qed
  qed
qed

text \<open>
  C6. When the request for the player page fails and no access token is given,
  \<^verbatim>\<open>loadVimeo\<close> returns normally; it has appended to the container an error panel whose
  message is the text that asks for a token; the adapter is as it was, so \<^verbatim>\<open>loadSource\<close>
  was not called; and the only request made is the one for the player page.
\<close>

theorem loadVimeo_without_token:
  assumes "getHLSFromPlayer vm (or_else (extractVideoId x) x) = Inl e"
    and "\<not> truthy token"
  shows "children (container (loadVimeo b vm x token f))
       = children (container f) @ [ErrorElement ''Failed to load Vimeo video'' token_required]
     \<and> player (loadVimeo b vm x token f) = player f
     \<and> requests (loadVimeo b vm x token f)
         = requests f @ [PlayerPage (or_else (extractVideoId x) x)]
     \<and> ''loading'' \<notin> set (classList (container (loadVimeo b vm x token f)))"
  using assms by (simp add: loadVimeo_def facade_simps Let_def)

theorem loadVimeo_without_token_witness:
  "children (container (loadVimeo engine_browser unreachable_vimeo ''76979871'' None
       default_facade))
     = [VideoElement, ControlsElement,
        ErrorElement ''Failed to load Vimeo video''
          ''Could not load video. For private videos, provide a Vimeo access token.'']
   \<and> player (loadVimeo engine_browser unreachable_vimeo ''76979871'' None default_facade)
       = player default_facade"
proof -
  have a: "getHLSFromPlayer unreachable_vimeo (or_else (extractVideoId ''76979871'') ''76979871'')
      = Inl (Error ''CORS_ERROR'')"
    by (simp add: unreachable_vimeo_def)
  have t: "\<not> truthy None" by (simp add: truthy_def)
  show ?thesis
    using loadVimeo_without_token [OF a t, of engine_browser default_facade]
    by (simp add: token_required_def children_default_facade)
qed

lemma split_no_separator: "c \<notin> set s \<Longrightarrow> split c s = [s]"
  by (induction s) auto

lemma split_one_separator:
  assumes "c \<notin> set w" and "c \<notin> set h"
  shows "split c (w @ c # h) = [w, h]"
  using assms by (induction w) (auto simp: split_no_separator)

lemma setupContainer_parts:
  assumes "aspectRatio (facade_options f) = Some (w @ '':'' @ h)"
    and "CHR '':'' \<notin> set w" and "CHR '':'' \<notin> set h"
  shows "style_paddingTop (container (setupContainer Number f))
    = Some (js_mul (js_div (Number h) (Number w)) (Num 100))"
  using assms
  by (simp add: setupContainer_def classList_add_def truthy_def element_at_def
      split_one_separator Let_def)

text \<open>
  C8, as the claim has it: for every aspect ratio \<^verbatim>\<open>W:H\<close> the top padding is exactly
  \<open>H / W * 100\<close> percent. For \<^verbatim>\<open>100:7\<close> that would be 7; the container gets
  \<^verbatim>\<open>7.000000000000001\<close>, the next binary64 value above 7.
\<close>

theorem setupContainer_exact_padding_counterexample:
  "style_paddingTop (container (setupContainer Number_decimal
      \<lparr>container = empty_container,
       facade_options = default_options\<lparr>aspectRatio := Some ''100:7''\<rparr>,
       player = None, controls = None, videoElement = False, requests = [], messages = []\<rparr>))
   = Some (Num (7 + 1 / 2 ^ 50))
   \<and> (7 + 1 / 2 ^ 50 :: real) \<noteq> 7 / 100 * 100"
proof -
  have r: "aspectRatio (facade_options
      \<lparr>container = empty_container,
       facade_options = default_options\<lparr>aspectRatio := Some ''100:7''\<rparr>,
       player = None, controls = None, videoElement = False, requests = [], messages = []\<rparr>)
      = Some (''100'' @ '':'' @ ''7'')"
    by simp
  have c: "CHR '':'' \<notin> set ''100''" "CHR '':'' \<notin> set ''7''" by simp_all
  have w: "Number_decimal ''100'' = Num 100" and h: "Number_decimal ''7'' = Num 7"
    by (simp_all add: Number_decimal_def is_digit_def digit_value_def binary64_simps)
  have q: "js_div (Num 7) (Num 100) = Num (5044031582654956 / 2 ^ 56)"
    by (simp add: binary64_simps)
  have p: "js_mul (Num (5044031582654956 / 2 ^ 56)) (Num 100) = Num (7 + 1 / 2 ^ 50)"
    by (simp add: binary64_simps)
  have "style_paddingTop (container (setupContainer Number_decimal
      \<lparr>container = empty_container,
       facade_options = default_options\<lparr>aspectRatio := Some ''100:7''\<rparr>,
       player = None, controls = None, videoElement = False, requests = [], messages = []\<rparr>))
      = Some (Num (7 + 1 / 2 ^ 50))"
    by (simp only: setupContainer_parts [OF r c] w h q p)
  moreover have "(7 + 1 / 2 ^ 50 :: real) \<noteq> 7 / 100 * 100" by simp
  ultimately show ?thesis by (rule conjI)
qed

text \<open>
  C8, amended. For an aspect ratio \<^verbatim>\<open>W:H\<close>, two colon-free strings that \<^verbatim>\<open>Number\<close> reads
  as the numbers \<open>W\<close> and \<open>H\<close>, with \<open>W\<close> not zero, the top padding is the binary64 value
  of \<^verbatim>\<open>(H / W) * 100\<close>: the quotient rounded to the nearest binary64 value, times 100,
  rounded again. It is exactly \<open>H / W * 100\<close> whenever neither operation has to round, as
  for \<^verbatim>\<open>16:9\<close>, which gives 56.25.
\<close>

theorem setupContainer_paddingTop_binary64:
  assumes "aspectRatio (facade_options f) = Some (w @ '':'' @ h)"
    and "CHR '':'' \<notin> set w" and "CHR '':'' \<notin> set h"
    and "Number w = Num W" and "Number h = Num H" and "W \<noteq> 0"
  shows "style_paddingTop (container (setupContainer Number f))
       = Some (js_mul (round64 (H / W)) (Num 100))
     \<and> (round64 (H / W) = Num (H / W) \<and> round64 (H / W * 100) = Num (H / W * 100)
        \<longrightarrow> style_paddingTop (container (setupContainer Number f)) = Some (Num (H / W * 100)))"
  using assms(4-6) by (simp add: setupContainer_parts [OF assms(1-3)])

theorem setupContainer_paddingTop_binary64_witness:
  "style_paddingTop (container (setupContainer Number_decimal
      \<lparr>container = empty_container, facade_options = default_options, player = None,
       controls = None, videoElement = False, requests = [], messages = []\<rparr>))
   = Some (Num 56.25)"
proof -
  have r: "aspectRatio (facade_options
      \<lparr>container = empty_container, facade_options = default_options, player = None,
       controls = None, videoElement = False, requests = [], messages = []\<rparr>)
      = Some (''16'' @ '':'' @ ''9'')"
    by (simp add: default_options_def)
  have w: "Number_decimal ''16'' = Num 16" and h: "Number_decimal ''9'' = Num 9"
    by (simp_all add: Number_decimal_def is_digit_def digit_value_def binary64_simps)
  have c: "CHR '':'' \<notin> set ''16''" "CHR '':'' \<notin> set ''9''" by simp_all
  have z: "(16::real) \<noteq> 0" by simp
  have q: "round64 (9 / 16) = Num (9 / 16)"
    by (simp add: binary64_simps)
  have p: "round64 (9 / 16 * 100) = Num (9 / 16 * 100)"
    by (simp add: binary64_simps)
  show ?thesis
    using setupContainer_paddingTop_binary64 [OF r c w h z, THEN conjunct2] q p by simp
qed

subsection \<open>Teardown\<close>

text \<open>What \<^verbatim>\<open>destroy\<close> does to the adapter: the engine it holds is destroyed and let go,
  the source of the media element is cleared, the registry is emptied.\<close>

lemma HLSPlayer_destroy_effects:
  "hls (HLSPlayer_destroy p) = None
   \<and> src (video (HLSPlayer_destroy p)) = ''''
   \<and> listeners (HLSPlayer_destroy p) = Map.empty"
  by (simp add: HLSPlayer_destroy_def Let_def split: option.split)

lemma HLSPlayer_destroy_releases_engine:
  assumes "hls p = Some i" and "i < length (engines p)"
  shows "calls (engines (HLSPlayer_destroy p) ! i) = calls (engines p ! i) @ [Hls_destroy]"
  using assms by (simp add: HLSPlayer_destroy_def engine_call_def)

lemma HLSPlayer_destroy_twice:
  "HLSPlayer_destroy (HLSPlayer_destroy p) = HLSPlayer_destroy p"
  by (simp add: HLSPlayer_destroy_def Let_def split: option.split)

text \<open>What it does to the facade: the overlay and the video leave the container, and the
  adapter is torn down but still referred to.\<close>

lemma VimeoHLSPlayer_destroy_player:
  "player (VimeoHLSPlayer_destroy f) = map_option HLSPlayer_destroy (player f)"
  by (simp add: VimeoHLSPlayer_destroy_def VideoControls_destroy_def facade_simps Let_def
      split: option.split)

lemma VimeoHLSPlayer_destroy_removes_controls:
  assumes "controls f \<noteq> None"
  shows "ControlsElement \<notin> set (children (container (VimeoHLSPlayer_destroy f)))"
  using assms
  by (auto simp: VimeoHLSPlayer_destroy_def VideoControls_destroy_def facade_simps Let_def
      split: option.split)

lemma VimeoHLSPlayer_destroy_twice:
  "VimeoHLSPlayer_destroy (VimeoHLSPlayer_destroy f) = VimeoHLSPlayer_destroy f"
proof (cases "controls f")
  case None
  then show ?thesis
    by (cases "player f")
      (simp_all add: VimeoHLSPlayer_destroy_def facade_simps HLSPlayer_destroy_twice Let_def)
next
  case (Some c)
  then show ?thesis
    by (cases "player f")
      (simp_all add: VimeoHLSPlayer_destroy_def VideoControls_destroy_def facade_simps
        HLSPlayer_destroy_twice Let_def)
qed

text \<open>After \<^verbatim>\<open>destroy\<close> the playback methods return, and so do \<^verbatim>\<open>on\<close> and \<^verbatim>\<open>off\<close> for
  an event name that is not a member every object inherits.\<close>

lemma methods_return_after_destroy:
  assumes "player f = Some p"
  shows "\<not> isl (VimeoHLSPlayer_play b (VimeoHLSPlayer_destroy f))
     \<and> \<not> isl (VimeoHLSPlayer_pause (VimeoHLSPlayer_destroy f))
     \<and> \<not> isl (VimeoHLSPlayer_togglePlay b (VimeoHLSPlayer_destroy f))
     \<and> \<not> isl (VimeoHLSPlayer_seek t (VimeoHLSPlayer_destroy f))
     \<and> \<not> isl (VimeoHLSPlayer_setVolume v (VimeoHLSPlayer_destroy f))
     \<and> \<not> isl (VimeoHLSPlayer_getVolume (VimeoHLSPlayer_destroy f))
     \<and> \<not> isl (VimeoHLSPlayer_toggleMute (VimeoHLSPlayer_destroy f))
     \<and> \<not> isl (VimeoHLSPlayer_getCurrentTime (VimeoHLSPlayer_destroy f))
     \<and> \<not> isl (VimeoHLSPlayer_getDuration (VimeoHLSPlayer_destroy f))"
  using assms
  by (simp add: VimeoHLSPlayer_destroy_player VimeoHLSPlayer_play_def VimeoHLSPlayer_pause_def
      VimeoHLSPlayer_togglePlay_def VimeoHLSPlayer_seek_def VimeoHLSPlayer_setVolume_def
      VimeoHLSPlayer_getVolume_def VimeoHLSPlayer_toggleMute_def
      VimeoHLSPlayer_getCurrentTime_def VimeoHLSPlayer_getDuration_def split: prod.split)

lemma on_off_return_after_destroy:
  assumes "player f = Some p" and "event \<notin> set Object_prototype_keys"
  shows "\<not> isl (VimeoHLSPlayer_on event cb (VimeoHLSPlayer_destroy f))
     \<and> \<not> isl (VimeoHLSPlayer_off event cb (VimeoHLSPlayer_destroy f))"
  using assms
  by (simp add: VimeoHLSPlayer_destroy_player VimeoHLSPlayer_on_def VimeoHLSPlayer_off_def
      HLSPlayer_on_def HLSPlayer_off_def get_property_def HLSPlayer_destroy_effects)

text \<open>An engine replaced by a second \<^verbatim>\<open>loadSource\<close> is no longer referred to: \<^verbatim>\<open>destroy\<close>
  releases the engine held last, and the first is never destroyed.\<close>

lemma replaced_engine_not_destroyed:
  assumes "HLSPlayer_loadSource engine_browser (Some ''first.m3u8'')
      (HLSPlayer_new new_video HLSPlayer_defaults) = Inr p1"
    and "HLSPlayer_loadSource engine_browser (Some ''second.m3u8'') p1 = Inr p2"
  shows "Hls_destroy \<notin> set (calls (engines (HLSPlayer_destroy p2) ! 0))
     \<and> Hls_destroy \<in> set (calls (engines (HLSPlayer_destroy p2) ! 1))"
  using assms
  by (auto simp: HLSPlayer_loadSource_def HLSPlayer_new_def truthy_def engine_browser_def
      HLSPlayer_destroy_def engine_call_def new_Hls_def Let_def)

text \<open>
  C2. The claim: \<^verbatim>\<open>destroy\<close> releases the engine, clears the source, empties the registry
  and removes the overlay; it can be called without a source loaded and more than once; and
  after it every public method, \<^verbatim>\<open>on\<close> and \<^verbatim>\<open>off\<close> among them, can be called without
  raising. On the facade built with the default options, after \<^verbatim>\<open>destroy\<close>, \<^verbatim>\<open>on\<close> and
  \<^verbatim>\<open>off\<close> with the event name \<^verbatim>\<open>toString\<close> raise a type error.
\<close>

theorem destroyed_facade_on_raises:
  "VimeoHLSPlayer_on ''toString'' (Callback 1) (VimeoHLSPlayer_destroy default_facade)
     = Inl (TypeError ''this.listeners[event].push is not a function'')
   \<and> VimeoHLSPlayer_off ''toString'' (Callback 1) (VimeoHLSPlayer_destroy default_facade)
     = Inl (TypeError ''this.listeners[event].filter is not a function'')"
proof -
  obtain p where "player default_facade = Some p"
    using player_default_facade by blast
  then show ?thesis
    by (simp add: VimeoHLSPlayer_destroy_player VimeoHLSPlayer_on_def VimeoHLSPlayer_off_def
        HLSPlayer_on_def HLSPlayer_off_def get_property_def HLSPlayer_destroy_effects
        Object_prototype_keys_def)
qed

end
